theory Spec2Isabelle
  imports Complex_Main
begin

section \<open>Strings\<close>

text \<open>
  Strings are character lists, a character being one byte of the UTF-8 form of the text.
  The bytes below 128 are the ASCII characters; a character outside ASCII is a run of two
  to four bytes, all of them 128 or more.
\<close>

definition lower_letters :: string where
  "lower_letters = ''abcdefghijklmnopqrstuvwxyz''"

definition upper_letters :: string where
  "upper_letters = ''ABCDEFGHIJKLMNOPQRSTUVWXYZ''"

definition toUpper_char :: "char \<Rightarrow> char" where
  "toUpper_char c = (case map_of (zip lower_letters upper_letters) c of Some u \<Rightarrow> u | None \<Rightarrow> c)"

definition is_ascii :: "char \<Rightarrow> bool" where
  "is_ascii c = ((of_char c :: nat) < 128)"

text \<open>
  \<open>String.prototype.toUpperCase\<close> maps the text character by character, and a character
  may become several. On ASCII it turns the letters \<open>a\<close> to \<open>z\<close> into \<open>A\<close> to \<open>Z\<close> and
  keeps the rest. What it does outside ASCII is the Unicode case table of the engine (it
  sends the dotless i to \<open>I\<close> and the long s to \<open>S\<close>, for instance), which is not part of
  the program: the table is the parameter \<open>tbl\<close>, applied to each maximal run of bytes
  outside ASCII, and it may answer with any text.
\<close>

function toUpperCase :: "(string \<Rightarrow> string) \<Rightarrow> string \<Rightarrow> string" where
  "toUpperCase tbl [] = []"
| "toUpperCase tbl (c # cs) =
     (if is_ascii c then toUpper_char c # toUpperCase tbl cs
      else tbl (c # takeWhile (\<lambda>x. \<not> is_ascii x) cs) @
           toUpperCase tbl (dropWhile (\<lambda>x. \<not> is_ascii x) cs))"
  by pat_completeness auto
termination
  by (relation "measure (\<lambda>(tbl, s). length s)")
    (auto simp: length_dropWhile_le less_Suc_eq_le)

fun startsWith :: "string \<Rightarrow> string \<Rightarrow> bool" where
  "startsWith s [] = True"
| "startsWith [] (p # ps) = False"
| "startsWith (c # cs) (p # ps) = (c = p \<and> startsWith cs ps)"

text \<open>\<open>String.prototype.includes\<close>: the pattern occurs at some position of the string.\<close>

fun includes_str :: "string \<Rightarrow> string \<Rightarrow> bool" where
  "includes_str [] pat = (pat = [])"
| "includes_str (c # cs) pat = (startsWith (c # cs) pat \<or> includes_str cs pat)"

text \<open>
  The white space and line terminators that \<open>String.prototype.trim\<close> strips, in UTF-8:
  tab, line feed, vertical tab, form feed, carriage return, space, U+00A0, U+1680, U+2000
  to U+200A, U+2028, U+2029, U+202F, U+205F, U+3000 and U+FEFF.
\<close>

definition whiteSpace :: "string list" where
  "whiteSpace =
     [[CHR 0x09], [CHR 0x0A], [CHR 0x0B], [CHR 0x0C], [CHR 0x0D], [CHR 0x20],
      [CHR 0xC2, CHR 0xA0],
      [CHR 0xE1, CHR 0x9A, CHR 0x80],
      [CHR 0xE2, CHR 0x80, CHR 0x80], [CHR 0xE2, CHR 0x80, CHR 0x81],
      [CHR 0xE2, CHR 0x80, CHR 0x82], [CHR 0xE2, CHR 0x80, CHR 0x83],
      [CHR 0xE2, CHR 0x80, CHR 0x84], [CHR 0xE2, CHR 0x80, CHR 0x85],
      [CHR 0xE2, CHR 0x80, CHR 0x86], [CHR 0xE2, CHR 0x80, CHR 0x87],
      [CHR 0xE2, CHR 0x80, CHR 0x88], [CHR 0xE2, CHR 0x80, CHR 0x89],
      [CHR 0xE2, CHR 0x80, CHR 0x8A],
      [CHR 0xE2, CHR 0x80, CHR 0xA8], [CHR 0xE2, CHR 0x80, CHR 0xA9],
      [CHR 0xE2, CHR 0x80, CHR 0xAF],
      [CHR 0xE2, CHR 0x81, CHR 0x9F],
      [CHR 0xE3, CHR 0x80, CHR 0x80],
      [CHR 0xEF, CHR 0xBB, CHR 0xBF]]"

text \<open>Strip from the front, as long as the text starts with one of the given pieces.\<close>

fun trimStart_of :: "string list \<Rightarrow> string \<Rightarrow> string" where
  "trimStart_of spaces [] = []"
| "trimStart_of spaces (c # cs) =
     (case find (startsWith (c # cs)) spaces of
        None \<Rightarrow> c # cs
      | Some w \<Rightarrow> trimStart_of spaces (drop (length w - 1) cs))"

definition trim :: "string \<Rightarrow> string" where
  "trim s = rev (trimStart_of (map rev whiteSpace) (rev (trimStart_of whiteSpace s)))"

text \<open>\<open>Array.prototype.join\<close> on a list of strings.\<close>

fun join :: "string \<Rightarrow> string list \<Rightarrow> string" where
  "join sep [] = []"
| "join sep [x] = x"
| "join sep (x # y # ys) = x @ sep @ join sep (y # ys)"

text \<open>\<open>xs.slice(-n)\<close>: the last \<open>n\<close> elements, or all of them when there are fewer.\<close>

definition slice_last :: "nat \<Rightarrow> 'a list \<Rightarrow> 'a list" where
  "slice_last n xs = drop (length xs - n) xs"

section \<open>Data model\<close>

datatype direction = inbound | outbound

fun direction_text :: "direction \<Rightarrow> string" where
  "direction_text inbound = ''inbound''"
| "direction_text outbound = ''outbound''"

record sms_message =
  direction :: direction
  message :: string
  timestamp :: int

record conversation =
  name :: string
  context_label :: string
  started :: int
  messages :: "sms_message list"

text \<open>
  The store is the process-wide \<open>Map\<close> from phone number to conversation, kept as the list
  of its entries in insertion order. \<open>conversations_set\<close> is \<open>Map.prototype.set\<close>: an
  existing key keeps its place and gets the new value, a new key goes to the end.
\<close>

type_synonym store = "(string \<times> conversation) list"

fun conversations_get :: "store \<Rightarrow> string \<Rightarrow> conversation option" where
  "conversations_get [] k = None"
| "conversations_get ((k', v) # rest) k = (if k' = k then Some v else conversations_get rest k)"

fun conversations_set :: "string \<Rightarrow> conversation \<Rightarrow> store \<Rightarrow> store" where
  "conversations_set k v [] = [(k, v)]"
| "conversations_set k v ((k', v') # rest) =
     (if k' = k then (k, v) # rest else (k', v') # conversations_set k v rest)"

section \<open>The outside world\<close>

text \<open>
  An exception is a value. \<open>ApiError\<close> is any rejection of a call to one of the two
  external clients (time-out, authentication, quota, ...); \<open>TypeError\<close> is what the
  runtime raises when a property of \<open>undefined\<close> is read.
\<close>

datatype error = ApiError string | TypeError string

record chat_message =
  role :: string
  content :: string

record completion_request =
  model :: string
  prompt_messages :: "chat_message list"
  max_tokens :: nat
  temperature :: rat

record sms_request =
  body :: string
  from_number :: string
  to_number :: string

text \<open>What a handler does besides answering: console output and calls to the two clients.\<close>

datatype event =
    ConsoleLog "string list"
  | ConsoleError string error
  | OpenAICall completion_request
  | TwilioCall sms_request

datatype date_site = At_started | At_inbound | At_outbound

text \<open>
  The environment of one request. The completion client answers with the list
  \<open>choices\<close>, each choice reduced to its \<open>message.content\<close> (\<open>None\<close> when the choice has
  no such string), or rejects. The SMS client answers with a receipt or rejects.
  \<open>new_Date\<close> is the clock, read at the three places where the handlers stamp a value.
  \<open>unicode_upper\<close> is the engine's case table for text outside ASCII.
\<close>

record env =
  openai_create :: "completion_request \<Rightarrow> error + string option list"
  twilio_create :: "sms_request \<Rightarrow> error + string"
  TWILIO_PHONE_NUMBER :: string
  new_Date :: "date_site \<Rightarrow> int"
  unicode_upper :: "string \<Rightarrow> string"

section \<open>Message composer\<close>

record ai_context =
  businessContext :: "string option"
  conversationHistory :: "string option"

definition newline :: string where
  "newline = [CHR 0x0A]"

definition systemPrompt :: "ai_context \<Rightarrow> string" where
  "systemPrompt ctx =
     ''You are a helpful customer service assistant for Go Blinds LLC, a window blind installation company. '' @ newline @
     ''    Keep responses under 160 characters for SMS. '' @ newline @
     ''    Be friendly, professional, and concise.'' @ newline @
     ''    Always end with \"Reply STOP to opt out\" unless the message is very short.'' @ newline @
     ''    Focus on appointment scheduling, confirmations, and service questions.'' @ newline @
     ''    '' @
     (case businessContext ctx of
        None \<Rightarrow> []
      | Some b \<Rightarrow> if b = [] then [] else ''Business context: '' @ b)"

definition completion_request_of :: "string \<Rightarrow> ai_context \<Rightarrow> completion_request" where
  "completion_request_of customerMessage ctx =
     \<lparr>model = ''gpt-3.5-turbo'',
      prompt_messages =
        [\<lparr>role = ''system'', content = systemPrompt ctx\<rparr>,
         \<lparr>role = ''user'', content = customerMessage\<rparr>],
      max_tokens = 50,
      temperature = 7 / 10\<rparr>"

text \<open>\<open>response.choices[0].message.content\<close>, which raises when a link of the chain is missing.\<close>

definition first_choice_content :: "string option list \<Rightarrow> error + string" where
  "first_choice_content choices =
     (case choices of
        [] \<Rightarrow> Inl (TypeError ''Cannot read properties of undefined'')
      | None # _ \<Rightarrow> Inl (TypeError ''Cannot read properties of undefined'')
      | Some c # _ \<Rightarrow> Inr c)"

definition fallbackMessage :: string where
  "fallbackMessage =
     ''Go Blinds LLC: Thanks for your message. We'll get back to you soon. Reply STOP to opt out.''"

text \<open>The body of the \<open>try\<close> block of \<open>generateAIResponse\<close>.\<close>

definition generateAIResponse_try :: "env \<Rightarrow> string \<Rightarrow> ai_context \<Rightarrow> (error + string) \<times> event list" where
  "generateAIResponse_try e customerMessage ctx =
     (let request = completion_request_of customerMessage ctx in
      ((case openai_create e request of
          Inl err \<Rightarrow> Inl err
        | Inr response \<Rightarrow>
            (case first_choice_content response of
               Inl err \<Rightarrow> Inl err
             | Inr c \<Rightarrow> Inr (trim c))),
       [OpenAICall request]))"

definition generateAIResponse :: "env \<Rightarrow> string \<Rightarrow> ai_context \<Rightarrow> string \<times> event list" where
  "generateAIResponse e customerMessage ctx =
     (case generateAIResponse_try e customerMessage ctx of
        (Inr reply, events) \<Rightarrow> (reply, events)
      | (Inl err, events) \<Rightarrow> (fallbackMessage, events @ [ConsoleError ''OpenAI error:'' err]))"

section \<open>Dispatch gateway\<close>

definition sendSMS :: "env \<Rightarrow> string \<Rightarrow> string \<Rightarrow> (error + string) \<times> event list" where
  "sendSMS e to_phone msg =
     (let request = \<lparr>body = msg, from_number = TWILIO_PHONE_NUMBER e, to_number = to_phone\<rparr> in
      case twilio_create e request of
        Inr result \<Rightarrow>
          (Inr result, [TwilioCall request, ConsoleLog [''SMS sent to '' @ to_phone @ '': '' @ msg]])
      | Inl err \<Rightarrow>
          (Inl err, [TwilioCall request, ConsoleError ''Twilio SMS error:'' err]))"

section \<open>Responses\<close>

record summary =
  summary_name :: string
  summary_context :: string
  summary_started :: int
  messageCount :: nat
  lastMessage :: "sms_message option"

datatype res_body =
    SendText string
  | JsonSuccess bool string string
  | JsonError string
  | JsonListing "string \<Rightarrow> summary option"

text \<open>\<open>content_type\<close> is the header a handler sets itself; \<open>None\<close> leaves it to the framework.\<close>

record response =
  status :: nat
  content_type :: "string option"
  payload :: res_body

section \<open>Route 1: initiate contact\<close>

record initiate_body =
  customer_phone :: string
  customer_name :: string
  trigger_context :: string

definition initiateContact_try ::
    "env \<Rightarrow> initiate_body \<Rightarrow> store \<Rightarrow> (error + response) \<times> store \<times> event list" where
  "initiateContact_try e req conversations =
     (let log0 = ConsoleLog [''Initiating contact:'', customer_phone req, customer_name req,
                             trigger_context req];
          conversations1 =
            conversations_set (customer_phone req)
              \<lparr>name = customer_name req, context_label = trigger_context req,
               started = new_Date e At_started, messages = []\<rparr> conversations;
          (initialMessage, ai_events) =
            generateAIResponse e
              (''Customer '' @ customer_name req @ '' needs help with: '' @ trigger_context req @
               ''. Send a friendly greeting and ask how we can help.'')
              \<lparr>businessContext = Some (trigger_context req), conversationHistory = None\<rparr>;
          (sent, sms_events) = sendSMS e (customer_phone req) initialMessage
      in case sent of
           Inl err \<Rightarrow> (Inl err, conversations1, log0 # ai_events @ sms_events)
         | Inr _ \<Rightarrow>
             (case conversations_get conversations1 (customer_phone req) of
                None \<Rightarrow>
                  (Inl (TypeError ''Cannot read properties of undefined''), conversations1,
                   log0 # ai_events @ sms_events)
              | Some c \<Rightarrow>
                  (Inr \<lparr>status = 200, content_type = None,
                        payload = JsonSuccess True ''Contact initiated'' initialMessage\<rparr>,
                   conversations_set (customer_phone req)
                     (c\<lparr>messages := messages c @
                        [\<lparr>direction = outbound, message = initialMessage,
                          timestamp = new_Date e At_outbound\<rparr>]\<rparr>) conversations1,
                   log0 # ai_events @ sms_events)))"

definition initiateContact :: "env \<Rightarrow> initiate_body \<Rightarrow> store \<Rightarrow> response \<times> store \<times> event list" where
  "initiateContact e req conversations =
     (case initiateContact_try e req conversations of
        (Inr res, conversations', events) \<Rightarrow> (res, conversations', events)
      | (Inl err, conversations', events) \<Rightarrow>
          (\<lparr>status = 500, content_type = None, payload = JsonError ''Failed to initiate contact''\<rparr>,
           conversations', events @ [ConsoleError ''Error initiating contact:'' err]))"

section \<open>Route 2: inbound SMS webhook\<close>

text \<open>
  The form fields of the webhook request. \<open>Body\<close> is the one field the handler calls a
  method on, so its absence (\<open>None\<close>) raises; a request is otherwise taken with its
  sender as a string.
\<close>

record webhook_body =
  From :: string
  Body :: "string option"

definition confirmMessage :: string where
  "confirmMessage =
     ''Go Blinds LLC: Perfect! Your appointment is confirmed. We'll send a reminder the day before. Reply STOP to opt out.''"

definition rescheduleMessage :: string where
  "rescheduleMessage =
     ''Go Blinds LLC: No problem! Please call us at [your phone] to reschedule or reply with your preferred times. Reply STOP to opt out.''"

definition twiml_ok :: response where
  "twiml_ok = \<lparr>status = 200, content_type = Some ''text/xml'', payload = SendText ''<Response></Response>''\<rparr>"

definition twiml_error :: response where
  "twiml_error = \<lparr>status = 500, content_type = None, payload = SendText ''<Response></Response>''\<rparr>"

text \<open>The two keyword branches share their shape: send the fixed text, then acknowledge.\<close>

definition reply_fixed ::
    "env \<Rightarrow> string \<Rightarrow> string \<Rightarrow> store \<Rightarrow> event \<Rightarrow> (error + response) \<times> store \<times> event list" where
  "reply_fixed e customerPhone fixed conversations log0 =
     (case sendSMS e customerPhone fixed of
        (Inl err, sms_events) \<Rightarrow> (Inl err, conversations, log0 # sms_events)
      | (Inr _, sms_events) \<Rightarrow> (Inr twiml_ok, conversations, log0 # sms_events))"

text \<open>The history string built from the transcript: last three entries, one per line.\<close>

definition contextString :: "sms_message list \<Rightarrow> string" where
  "contextString msgs =
     join newline (map (\<lambda>m. direction_text (direction m) @ '': '' @ message m) (slice_last 3 msgs))"

definition handleInbound_try ::
    "env \<Rightarrow> webhook_body \<Rightarrow> store \<Rightarrow> (error + response) \<times> store \<times> event list" where
  "handleInbound_try e req conversations =
     (let customerPhone = From req in
      case Body req of
        None \<Rightarrow>
          (Inl (TypeError ''Cannot read properties of undefined''), conversations,
           [ConsoleLog [''Incoming SMS from '' @ customerPhone @ '': undefined'']])
      | Some messageBody \<Rightarrow>
          (let log0 = ConsoleLog [''Incoming SMS from '' @ customerPhone @ '': '' @ messageBody] in
           if includes_str (toUpperCase (unicode_upper e) messageBody) ''CONFIRM'' then
             reply_fixed e customerPhone confirmMessage conversations log0
           else if includes_str (toUpperCase (unicode_upper e) messageBody) ''RESCHEDULE'' then
             reply_fixed e customerPhone rescheduleMessage conversations log0
           else
             (let (c0, conversations1) =
                    (case conversations_get conversations customerPhone of
                       Some c \<Rightarrow> (c, conversations)
                     | None \<Rightarrow>
                         (let c = \<lparr>name = ''Customer'', context_label = ''General inquiry'',
                                   started = new_Date e At_started, messages = []\<rparr>
                          in (c, conversations_set customerPhone c conversations)));
                  c1 = c0\<lparr>messages := messages c0 @
                          [\<lparr>direction = inbound, message = messageBody,
                            timestamp = new_Date e At_inbound\<rparr>]\<rparr>;
                  conversations2 = conversations_set customerPhone c1 conversations1;
                  (aiResponse, ai_events) =
                    generateAIResponse e messageBody
                      \<lparr>businessContext = Some (context_label c1),
                       conversationHistory = Some (contextString (messages c1))\<rparr>;
                  (sent, sms_events) = sendSMS e customerPhone aiResponse
              in case sent of
                   Inl err \<Rightarrow> (Inl err, conversations2, log0 # ai_events @ sms_events)
                 | Inr _ \<Rightarrow>
                     (Inr twiml_ok,
                      conversations_set customerPhone
                        (c1\<lparr>messages := messages c1 @
                           [\<lparr>direction = outbound, message = aiResponse,
                             timestamp = new_Date e At_outbound\<rparr>]\<rparr>) conversations2,
                      log0 # ai_events @ sms_events))))"

definition handleInbound :: "env \<Rightarrow> webhook_body \<Rightarrow> store \<Rightarrow> response \<times> store \<times> event list" where
  "handleInbound e req conversations =
     (case handleInbound_try e req conversations of
        (Inr res, conversations', events) \<Rightarrow> (res, conversations', events)
      | (Inl err, conversations', events) \<Rightarrow>
          (twiml_error, conversations',
           events @ [ConsoleError ''Error handling incoming SMS:'' err]))"

section \<open>Route 4: list conversations\<close>

definition summarize :: "conversation \<Rightarrow> summary" where
  "summarize c =
     \<lparr>summary_name = name c, summary_context = context_label c, summary_started = started c,
      messageCount = length (messages c),
      lastMessage = (if messages c = [] then None else Some (messages c ! (length (messages c) - 1)))\<rparr>"

text \<open>
  The assignment \<open>obj[key] = v\<close> on a plain object whose value \<open>v\<close> is an object. The object is
  kept as the map of its own properties, which is what the JSON sent back shows. The key
  \<open>__proto__\<close> is the accessor that a plain object inherits: assigning to it replaces the
  prototype and adds no property. Every other key becomes, or stays, an own property.
\<close>

definition assign_property ::
    "(string \<Rightarrow> summary option) \<Rightarrow> string \<Rightarrow> summary \<Rightarrow> (string \<Rightarrow> summary option)" where
  "assign_property obj key v = (if key = ''__proto__'' then obj else obj(key \<mapsto> v))"

text \<open>The loop over the entries of the store, filling the object that is sent back.\<close>

fun listing_loop :: "store \<Rightarrow> (string \<Rightarrow> summary option) \<Rightarrow> (string \<Rightarrow> summary option)" where
  "listing_loop [] allConversations = allConversations"
| "listing_loop ((phone, c) # rest) allConversations =
     listing_loop rest (assign_property allConversations phone (summarize c))"

definition listConversations :: "store \<Rightarrow> response" where
  "listConversations conversations =
     \<lparr>status = 200, content_type = None, payload = JsonListing (listing_loop conversations Map.empty)\<rparr>"

section \<open>Vocabulary of the properties\<close>

text \<open>
  A word is the keyword \<open>kw\<close> "in any case" when each of its letters is the keyword's
  letter or the upper-case form of it.
\<close>

definition any_case_of :: "string \<Rightarrow> string \<Rightarrow> bool" where
  "any_case_of kw w = list_all2 (\<lambda>k c. c = k \<or> c = toUpper_char k) kw w"

text \<open>The requests handed to the SMS transport during a run, in order.\<close>

fun dispatched :: "event list \<Rightarrow> sms_request list" where
  "dispatched [] = []"
| "dispatched (TwilioCall r # evs) = r # dispatched evs"
| "dispatched (_ # evs) = dispatched evs"

text \<open>The requests handed to the completion client during a run, in order.\<close>

fun completions :: "event list \<Rightarrow> completion_request list" where
  "completions [] = []"
| "completions (OpenAICall r # evs) = r # completions evs"
| "completions (_ # evs) = completions evs"

text \<open>The transcript stored for a number, empty when the number is unknown.\<close>

definition transcript :: "store \<Rightarrow> string \<Rightarrow> sms_message list" where
  "transcript s phone = (case conversations_get s phone of None \<Rightarrow> [] | Some c \<Rightarrow> messages c)"

text \<open>
  The pieces of the free-text branch of the webhook handler, named so that its result can
  be written down: the conversation it works on, the two transcript entries it appends,
  the context it hands to the composer and the request it hands to the SMS transport.
\<close>

definition stored_or_new :: "env \<Rightarrow> store \<Rightarrow> string \<Rightarrow> conversation" where
  "stored_or_new e s phone =
     (case conversations_get s phone of
        Some c \<Rightarrow> c
      | None \<Rightarrow> \<lparr>name = ''Customer'', context_label = ''General inquiry'',
                 started = new_Date e At_started, messages = []\<rparr>)"

definition inbound_entry :: "env \<Rightarrow> string \<Rightarrow> sms_message" where
  "inbound_entry e b = \<lparr>direction = inbound, message = b, timestamp = new_Date e At_inbound\<rparr>"

definition outbound_entry :: "env \<Rightarrow> string \<Rightarrow> sms_message" where
  "outbound_entry e m = \<lparr>direction = outbound, message = m, timestamp = new_Date e At_outbound\<rparr>"

definition reply_context :: "env \<Rightarrow> store \<Rightarrow> string \<Rightarrow> string \<Rightarrow> ai_context" where
  "reply_context e s phone b =
     \<lparr>businessContext = Some (context_label (stored_or_new e s phone)),
      conversationHistory =
        Some (contextString (messages (stored_or_new e s phone) @ [inbound_entry e b]))\<rparr>"

definition reply_request :: "env \<Rightarrow> store \<Rightarrow> string \<Rightarrow> string \<Rightarrow> sms_request" where
  "reply_request e s phone b =
     \<lparr>body = fst (generateAIResponse e b (reply_context e s phone b)),
      from_number = TWILIO_PHONE_NUMBER e, to_number = phone\<rparr>"

text \<open>The request that the initiate-contact route hands to the SMS transport.\<close>

definition greeting_request :: "env \<Rightarrow> initiate_body \<Rightarrow> sms_request" where
  "greeting_request e req =
     \<lparr>body = fst (generateAIResponse e
         (''Customer '' @ customer_name req @ '' needs help with: '' @ trigger_context req @
          ''. Send a friendly greeting and ask how we can help.'')
         \<lparr>businessContext = Some (trigger_context req), conversationHistory = None\<rparr>),
      from_number = TWILIO_PHONE_NUMBER e, to_number = customer_phone req\<rparr>"

section \<open>Example environments\<close>

text \<open>
  A case table that knows two characters: the dotless i (U+0131, bytes C4 B1) becomes
  \<open>I\<close> and the long s (U+017F, bytes C5 BF) becomes \<open>S\<close>, as in Unicode.
\<close>

fun upper_sample :: "string \<Rightarrow> string" where
  "upper_sample [] = []"
| "upper_sample [c] = [c]"
| "upper_sample (c # d # rest) =
     (if c = CHR 0xC4 \<and> d = CHR 0xB1 then ''I'' @ upper_sample rest
      else if c = CHR 0xC5 \<and> d = CHR 0xBF then ''S'' @ upper_sample rest
      else c # upper_sample (d # rest))"

definition env_ok :: env where
  "env_ok =
     \<lparr>openai_create = (\<lambda>_. Inr [Some '' Happy to help! Reply STOP to opt out. '']),
      twilio_create = (\<lambda>_. Inr ''SM0001''),
      TWILIO_PHONE_NUMBER = ''+15550001111'',
      new_Date = (\<lambda>site. case site of At_started \<Rightarrow> 1000 | At_inbound \<Rightarrow> 1001 | At_outbound \<Rightarrow> 1002),
      unicode_upper = upper_sample\<rparr>"

definition env_ai_down :: env where
  "env_ai_down = env_ok\<lparr>openai_create := (\<lambda>_. Inl (ApiError ''timeout''))\<rparr>"

definition env_ai_malformed :: env where
  "env_ai_malformed = env_ok\<lparr>openai_create := (\<lambda>_. Inr [])\<rparr>"

definition env_sms_down :: env where
  "env_sms_down = env_ok\<lparr>twilio_create := (\<lambda>_. Inl (ApiError ''unreachable''))\<rparr>"

definition jane :: conversation where
  "jane =
     \<lparr>name = ''Jane'', context_label = ''blind install quote'', started = 500,
      messages =
        [\<lparr>direction = outbound, message = ''Hi Jane, how can we help?'', timestamp = 501\<rparr>,
         \<lparr>direction = inbound, message = ''I need a quote'', timestamp = 502\<rparr>,
         \<lparr>direction = outbound, message = ''Sure, which room?'', timestamp = 503\<rparr>]\<rparr>"

section \<open>Facts about strings and the store\<close>

lemma toUpper_char_idem: "toUpper_char (toUpper_char c) = toUpper_char c"
  by (simp add: toUpper_char_def lower_letters_def upper_letters_def)

lemma startsWith_iff: "startsWith s p \<longleftrightarrow> (\<exists>post. s = p @ post)"
  by (induction s p rule: startsWith.induct) auto

lemma includes_str_iff: "includes_str s pat \<longleftrightarrow> (\<exists>pre post. s = pre @ pat @ post)"
proof (induction s)
  case Nil
  then show ?case by auto
next
  case (Cons c cs)
  show ?case
  proof
    assume "includes_str (c # cs) pat"
    then consider "startsWith (c # cs) pat" | "includes_str cs pat" by auto
    then show "\<exists>pre post. c # cs = pre @ pat @ post"
    proof cases
      case 1
      then obtain post where "c # cs = pat @ post" by (auto simp: startsWith_iff)
      then have "c # cs = [] @ pat @ post" by simp
      then show ?thesis by blast
    next
      case 2
      then obtain pre post where "cs = pre @ pat @ post" using Cons.IH by auto
      then have "c # cs = (c # pre) @ pat @ post" by simp
      then show ?thesis by blast
    qed
  next
    assume "\<exists>pre post. c # cs = pre @ pat @ post"
    then obtain pre post where eq: "c # cs = pre @ pat @ post" by blast
    show "includes_str (c # cs) pat"
    proof (cases pre)
      case Nil
      then have "startsWith (c # cs) pat" using eq by (auto simp: startsWith_iff)
      then show ?thesis by simp
    next
      case (Cons a pre')
      then have "cs = pre' @ pat @ post" using eq by simp
      then have "includes_str cs pat" using Cons.IH by blast
      then show ?thesis by simp
    qed
  qed
qed

lemma toUpper_char_ascii: "is_ascii c \<Longrightarrow> is_ascii (toUpper_char c)"
proof (cases "map_of (zip lower_letters upper_letters) c")
  case None
  assume "is_ascii c"
  then show ?thesis using None by (simp add: toUpper_char_def)
next
  case (Some u)
  then have "u \<in> set upper_letters" by (auto dest!: map_of_SomeD set_zip_rightD)
  then have "is_ascii u" by (auto simp: upper_letters_def is_ascii_def)
  then show ?thesis using Some by (simp add: toUpper_char_def)
qed

lemma takeWhile_stop:
  "is_ascii a \<Longrightarrow>
     takeWhile (\<lambda>x. \<not> is_ascii x) (cs @ a # rest) = takeWhile (\<lambda>x. \<not> is_ascii x) cs"
  by (induction cs) auto

lemma dropWhile_stop:
  "is_ascii a \<Longrightarrow>
     dropWhile (\<lambda>x. \<not> is_ascii x) (cs @ a # rest) = dropWhile (\<lambda>x. \<not> is_ascii x) cs @ a # rest"
  by (induction cs) auto

text \<open>An ASCII character ends the run before it: upper-casing splits there.\<close>

lemma toUpperCase_split:
  "is_ascii a \<Longrightarrow> toUpperCase tbl (pre @ a # rest) = toUpperCase tbl pre @ toUpperCase tbl (a # rest)"
proof (induction tbl pre rule: toUpperCase.induct)
  case (1 tbl)
  show ?case by simp
next
  case (2 tbl c cs)
  show ?case
  proof (cases "is_ascii c")
    case True
    then show ?thesis using 2 by simp
  next
    case False
    have ih: "toUpperCase tbl (dropWhile (\<lambda>x. \<not> is_ascii x) cs @ a # rest) =
          toUpperCase tbl (dropWhile (\<lambda>x. \<not> is_ascii x) cs) @ toUpperCase tbl (a # rest)"
      using 2 False by simp
    have "toUpperCase tbl ((c # cs) @ a # rest) =
          tbl (c # takeWhile (\<lambda>x. \<not> is_ascii x) (cs @ a # rest)) @
          toUpperCase tbl (dropWhile (\<lambda>x. \<not> is_ascii x) (cs @ a # rest))"
      using False by simp
    also have "\<dots> = tbl (c # takeWhile (\<lambda>x. \<not> is_ascii x) cs) @
          toUpperCase tbl (dropWhile (\<lambda>x. \<not> is_ascii x) cs) @ toUpperCase tbl (a # rest)"
      unfolding takeWhile_stop [OF 2(3)] dropWhile_stop [OF 2(3)] ih ..
    also have "\<dots> = toUpperCase tbl (c # cs) @ toUpperCase tbl (a # rest)"
      using False by simp
    finally show ?thesis .
  qed
qed

lemma toUpperCase_ascii_prefix:
  "list_all is_ascii w \<Longrightarrow> toUpperCase tbl (w @ post) = map toUpper_char w @ toUpperCase tbl post"
  by (induction w) auto

lemma any_case_ascii:
  "any_case_of kw w \<Longrightarrow> list_all is_ascii kw \<Longrightarrow>
     list_all is_ascii w \<and> map toUpper_char w = map toUpper_char kw"
  unfolding any_case_of_def
  by (induction kw w rule: list_all2_induct) (auto simp: toUpper_char_idem toUpper_char_ascii)

lemma includes_any_case:
  assumes "any_case_of kw w" and "list_all is_ascii kw" and "kw \<noteq> []"
  shows "includes_str (toUpperCase tbl (pre @ w @ post)) (map toUpper_char kw)"
proof -
  note a = any_case_ascii [OF assms(1,2)]
  have "length w = length kw" using assms(1) by (simp add: any_case_of_def list_all2_lengthD)
  then obtain c w' where w: "w = c # w'" using assms(3) by (cases w) auto
  have c: "is_ascii c" using a w by simp
  have "toUpperCase tbl (pre @ w @ post) = toUpperCase tbl pre @ toUpperCase tbl (w @ post)"
    using toUpperCase_split [OF c, of tbl pre "w' @ post"] by (simp add: w)
  also have "toUpperCase tbl (w @ post) = map toUpper_char kw @ toUpperCase tbl post"
    using a by (simp add: toUpperCase_ascii_prefix)
  finally show ?thesis unfolding includes_str_iff by blast
qed

lemma upper_confirm:
  "list_all is_ascii ''confirm'' \<and> ''confirm'' \<noteq> [] \<and> map toUpper_char ''confirm'' = ''CONFIRM''"
  by (simp add: is_ascii_def toUpper_char_def lower_letters_def upper_letters_def)

lemma upper_reschedule:
  "list_all is_ascii ''reschedule'' \<and> ''reschedule'' \<noteq> [] \<and>
   map toUpper_char ''reschedule'' = ''RESCHEDULE''"
  by (simp add: is_ascii_def toUpper_char_def lower_letters_def upper_letters_def)

lemma get_set: "conversations_get (conversations_set k v s) k' = (if k' = k then Some v else conversations_get s k')"
  by (induction s) auto

lemma set_set: "conversations_set k v (conversations_set k v' s) = conversations_set k v s"
  by (induction s) auto

lemma set_fresh: "conversations_get s k = None \<Longrightarrow> conversations_set k v s = s @ [(k, v)]"
  by (induction s) (auto split: if_splits)

lemma get_None_filter: "conversations_get s k = None \<Longrightarrow> filter (\<lambda>p. fst p = k) s = []"
  by (induction s) (auto split: if_splits)

lemma keys_set: "conversations_get s k = Some v' \<Longrightarrow> map fst (conversations_set k v s) = map fst s"
  by (induction s) (auto split: if_splits)

lemma get_None_keys: "conversations_get s k = None \<Longrightarrow> k \<notin> set (map fst s)"
  by (induction s) (force split: if_splits)+

lemma distinct_set: "distinct (map fst s) \<Longrightarrow> distinct (map fst (conversations_set k v s))"
proof (cases "conversations_get s k")
  case None
  assume d: "distinct (map fst s)"
  have "k \<notin> set (map fst s)" using None by (rule get_None_keys)
  then show ?thesis using d by (simp add: set_fresh [OF None])
next
  case (Some v')
  assume "distinct (map fst s)"
  then show ?thesis by (simp add: keys_set [OF Some])
qed

section \<open>Facts about the composer and the gateway\<close>

lemma sendSMS_outcome: "fst (sendSMS e p m) = twilio_create e \<lparr>body = m, from_number = TWILIO_PHONE_NUMBER e, to_number = p\<rparr>"
  by (simp add: sendSMS_def Let_def split: sum.splits)

lemma sendSMS_dispatched: "dispatched (snd (sendSMS e p m)) = [\<lparr>body = m, from_number = TWILIO_PHONE_NUMBER e, to_number = p\<rparr>]"
  by (simp add: sendSMS_def Let_def split: sum.splits)

lemma sendSMS_completions: "completions (snd (sendSMS e p m)) = []"
  by (simp add: sendSMS_def Let_def split: sum.splits)

lemma sendSMS_last_error:
  "fst (sendSMS e p m) = Inl err \<Longrightarrow> snd (sendSMS e p m) \<noteq> [] \<and> last (snd (sendSMS e p m)) = ConsoleError ''Twilio SMS error:'' err"
  by (simp add: sendSMS_def Let_def split: sum.splits)

lemma dispatched_append: "dispatched (xs @ ys) = dispatched xs @ dispatched ys"
  by (induction xs rule: dispatched.induct) auto

lemma completions_append: "completions (xs @ ys) = completions xs @ completions ys"
  by (induction xs rule: completions.induct) auto

lemma generateAIResponse_dispatched: "dispatched (snd (generateAIResponse e m c)) = []"
  by (simp add: generateAIResponse_def generateAIResponse_try_def Let_def split: sum.splits prod.splits)

lemma generateAIResponse_completions: "completions (snd (generateAIResponse e m c)) = [completion_request_of m c]"
  by (simp add: generateAIResponse_def generateAIResponse_try_def Let_def split: sum.splits prod.splits)

section \<open>Composer fallback\<close>

text \<open>
  Claim C1, as the code has it. Whenever the completion call fails, by rejecting or by
  answering without a usable first choice, \<open>generateAIResponse\<close> returns a reply and not
  an error: the fixed text, which carries the business prefix \<open>Go Blinds LLC: \<close>. The run
  consists of the completion call and the log line of the failure.
\<close>

theorem C1_compose_fallback:
  assumes "openai_create e (completion_request_of m ctx) = Inl err \<or>
           (\<exists>r. openai_create e (completion_request_of m ctx) = Inr r \<and> first_choice_content r = Inl err)"
  shows "generateAIResponse e m ctx =
           (''Go Blinds LLC: Thanks for your message. We'll get back to you soon. Reply STOP to opt out.'',
            [OpenAICall (completion_request_of m ctx), ConsoleError ''OpenAI error:'' err])"
  using assms
  by (auto simp: generateAIResponse_def generateAIResponse_try_def Let_def fallbackMessage_def)

text \<open>C1 at a rejected call and at an answer with no choices.\<close>

theorem C1_compose_fallback_witness:
  "openai_create env_ai_down (completion_request_of ''hi'' \<lparr>businessContext = None, conversationHistory = None\<rparr>) = Inl (ApiError ''timeout'') \<and>
   fst (generateAIResponse env_ai_down ''hi'' \<lparr>businessContext = None, conversationHistory = None\<rparr>) =
     ''Go Blinds LLC: Thanks for your message. We'll get back to you soon. Reply STOP to opt out.'' \<and>
   first_choice_content [] = Inl (TypeError ''Cannot read properties of undefined'') \<and>
   fst (generateAIResponse env_ai_malformed ''hi'' \<lparr>businessContext = None, conversationHistory = None\<rparr>) =
     ''Go Blinds LLC: Thanks for your message. We'll get back to you soon. Reply STOP to opt out.''"
proof -
  let ?ctx = "\<lparr>businessContext = None, conversationHistory = None\<rparr>"
  have down: "openai_create env_ai_down (completion_request_of ''hi'' ?ctx) = Inl (ApiError ''timeout'')"
    by (simp add: env_ai_down_def env_ok_def)
  have bad: "openai_create env_ai_malformed (completion_request_of ''hi'' ?ctx) = Inr []"
    by (simp add: env_ai_malformed_def env_ok_def)
  have fc: "first_choice_content [] = Inl (TypeError ''Cannot read properties of undefined'')"
    by (simp add: first_choice_content_def)
  from down have a: "fst (generateAIResponse env_ai_down ''hi'' ?ctx) =
     ''Go Blinds LLC: Thanks for your message. We'll get back to you soon. Reply STOP to opt out.''"
    using C1_compose_fallback [of env_ai_down "''hi''" ?ctx "ApiError ''timeout''"] by simp
  from bad fc have b: "fst (generateAIResponse env_ai_malformed ''hi'' ?ctx) =
     ''Go Blinds LLC: Thanks for your message. We'll get back to you soon. Reply STOP to opt out.''"
    using C1_compose_fallback [of env_ai_malformed "''hi''" ?ctx "TypeError ''Cannot read properties of undefined''"] by simp
  from down a fc b show ?thesis by simp
qed

text \<open>
  C1 as stated fails: the completion call times out and the reply is not the sentence
  without the prefix.
\<close>

theorem C1_fallback_text_counterexample:
  "openai_create env_ai_down (completion_request_of ''hi'' \<lparr>businessContext = None, conversationHistory = None\<rparr>) = Inl (ApiError ''timeout'') \<and>
   fst (generateAIResponse env_ai_down ''hi'' \<lparr>businessContext = None, conversationHistory = None\<rparr>) \<noteq>
     ''Thanks for your message. We'll get back to you soon. Reply STOP to opt out.''"
  by (simp add: generateAIResponse_def generateAIResponse_try_def Let_def fallbackMessage_def
      env_ai_down_def env_ok_def)

section \<open>Keyword branches of the webhook\<close>

lemma reply_fixed_store: "fst (snd (reply_fixed e p m s l)) = s"
  by (simp add: reply_fixed_def split: prod.splits sum.splits)

lemma reply_fixed_events: "snd (snd (reply_fixed e p m s l)) = l # snd (sendSMS e p m)"
  by (simp add: reply_fixed_def split: prod.splits sum.splits)

lemma reply_fixed_outcome:
  "fst (reply_fixed e p m s l) = (case fst (sendSMS e p m) of Inl err \<Rightarrow> Inl err | Inr _ \<Rightarrow> Inr twiml_ok)"
  by (simp add: reply_fixed_def split: prod.splits sum.splits)

lemma handleInbound_store: "fst (snd (handleInbound e req s)) = fst (snd (handleInbound_try e req s))"
  by (simp add: handleInbound_def split: prod.splits sum.splits)

lemma handleInbound_dispatched:
  "dispatched (snd (snd (handleInbound e req s))) = dispatched (snd (snd (handleInbound_try e req s)))"
  by (simp add: handleInbound_def dispatched_append split: prod.splits sum.splits)

lemma handleInbound_confirm:
  assumes "Body req = Some b" and "includes_str (toUpperCase (unicode_upper e) b) ''CONFIRM''"
  shows "handleInbound_try e req s =
           reply_fixed e (From req) confirmMessage s
             (ConsoleLog [''Incoming SMS from '' @ From req @ '': '' @ b])"
  using assms by (simp add: handleInbound_try_def Let_def)

lemma handleInbound_reschedule:
  assumes "Body req = Some b" and "\<not> includes_str (toUpperCase (unicode_upper e) b) ''CONFIRM''"
    and "includes_str (toUpperCase (unicode_upper e) b) ''RESCHEDULE''"
  shows "handleInbound_try e req s =
           reply_fixed e (From req) rescheduleMessage s
             (ConsoleLog [''Incoming SMS from '' @ From req @ '': '' @ b])"
  using assms by (simp add: handleInbound_try_def Let_def)

text \<open>
  Claim C6. A body that contains \<open>confirm\<close> in any case makes the handler hand exactly one
  message to the SMS transport, the fixed confirmation text addressed to the sender, and
  leaves the store as it was: no conversation is created and no transcript grows. This
  holds whether or not the transport accepts the message.
\<close>

theorem C6_confirm_keeps_store:
  assumes "Body req = Some (pre @ w @ post)" and "any_case_of ''confirm'' w"
  shows "fst (snd (handleInbound e req s)) = s \<and>
         dispatched (snd (snd (handleInbound e req s))) =
           [\<lparr>body = ''Go Blinds LLC: Perfect! Your appointment is confirmed. We'll send a reminder the day before. Reply STOP to opt out.'',
             from_number = TWILIO_PHONE_NUMBER e, to_number = From req\<rparr>]"
proof -
  have "includes_str (toUpperCase (unicode_upper e) (pre @ w @ post)) ''CONFIRM''"
    using includes_any_case [OF assms(2), of "unicode_upper e" pre post] upper_confirm by simp
  then have "handleInbound_try e req s =
      reply_fixed e (From req) confirmMessage s
        (ConsoleLog [''Incoming SMS from '' @ From req @ '': '' @ (pre @ w @ post)])"
    using assms(1) by (rule handleInbound_confirm [rotated])
  then show ?thesis
    by (simp add: handleInbound_store handleInbound_dispatched reply_fixed_store
        reply_fixed_events sendSMS_dispatched confirmMessage_def)
qed

text \<open>C6 at a mixed-case body from a number that has a conversation.\<close>

theorem C6_confirm_keeps_store_witness:
  "any_case_of ''confirm'' ''CoNfIrM'' \<and>
   fst (snd (handleInbound env_ok \<lparr>From = ''+15551234567'', Body = Some ''Yes, I CoNfIrM that''\<rparr>
              [(''+15551234567'', jane)])) = [(''+15551234567'', jane)] \<and>
   map to_number (dispatched (snd (snd (handleInbound env_ok
     \<lparr>From = ''+15551234567'', Body = Some ''Yes, I CoNfIrM that''\<rparr> [(''+15551234567'', jane)])))) =
     [''+15551234567'']"
proof -
  have w: "any_case_of ''confirm'' ''CoNfIrM''"
    by (simp add: any_case_of_def toUpper_char_def lower_letters_def upper_letters_def)
  have b: "Body \<lparr>From = ''+15551234567'', Body = Some ''Yes, I CoNfIrM that''\<rparr> =
           Some (''Yes, I '' @ ''CoNfIrM'' @ '' that'')" by simp
  show ?thesis
    using w C6_confirm_keeps_store [OF b w, of env_ok "[(''+15551234567'', jane)]"] by simp
qed

text \<open>
  Claim C3, as the code has it. The reschedule branch is tried after the confirm branch.
  A body that contains \<open>reschedule\<close> in any case, and whose upper-case form, as the
  engine computes it, does not contain \<open>CONFIRM\<close>, makes the handler hand exactly one
  message to the SMS transport, the fixed reschedule text addressed to the sender, and
  leaves the store as it was.
\<close>

theorem C3_reschedule_after_confirm:
  assumes "Body req = Some (pre @ w @ post)" and "any_case_of ''reschedule'' w"
    and "\<not> includes_str (toUpperCase (unicode_upper e) (pre @ w @ post)) ''CONFIRM''"
  shows "fst (snd (handleInbound e req s)) = s \<and>
         dispatched (snd (snd (handleInbound e req s))) =
           [\<lparr>body = ''Go Blinds LLC: No problem! Please call us at [your phone] to reschedule or reply with your preferred times. Reply STOP to opt out.'',
             from_number = TWILIO_PHONE_NUMBER e, to_number = From req\<rparr>]"
proof -
  have "includes_str (toUpperCase (unicode_upper e) (pre @ w @ post)) ''RESCHEDULE''"
    using includes_any_case [OF assms(2), of "unicode_upper e" pre post] upper_reschedule by simp
  then have "handleInbound_try e req s =
      reply_fixed e (From req) rescheduleMessage s
        (ConsoleLog [''Incoming SMS from '' @ From req @ '': '' @ (pre @ w @ post)])"
    using assms(1,3) by (intro handleInbound_reschedule)
  then show ?thesis
    by (simp add: handleInbound_store handleInbound_dispatched reply_fixed_store
        reply_fixed_events sendSMS_dispatched rescheduleMessage_def)
qed

text \<open>C3 at a mixed-case body without the other keyword.\<close>

theorem C3_reschedule_after_confirm_witness:
  "any_case_of ''reschedule'' ''ReSchedule'' \<and>
   \<not> includes_str (toUpperCase (unicode_upper env_ok) ''Please ReSchedule me'') ''CONFIRM'' \<and>
   fst (snd (handleInbound env_ok \<lparr>From = ''+15551234567'', Body = Some ''Please ReSchedule me''\<rparr>
              [(''+15551234567'', jane)])) = [(''+15551234567'', jane)] \<and>
   map to_number (dispatched (snd (snd (handleInbound env_ok
     \<lparr>From = ''+15551234567'', Body = Some ''Please ReSchedule me''\<rparr> [(''+15551234567'', jane)])))) =
     [''+15551234567'']"
proof -
  have w: "any_case_of ''reschedule'' ''ReSchedule''"
    by (simp add: any_case_of_def toUpper_char_def lower_letters_def upper_letters_def)
  have n: "\<not> includes_str (toUpperCase (unicode_upper env_ok) (''Please '' @ ''ReSchedule'' @ '' me'')) ''CONFIRM''"
    by (simp add: is_ascii_def toUpper_char_def lower_letters_def upper_letters_def)
  have b: "Body \<lparr>From = ''+15551234567'', Body = Some ''Please ReSchedule me''\<rparr> =
           Some (''Please '' @ ''ReSchedule'' @ '' me'')" by simp
  show ?thesis
    using w n C3_reschedule_after_confirm [OF b w n, of "[(''+15551234567'', jane)]"] by simp
qed

text \<open>
  C3 as stated fails: a body with both keywords contains \<open>reschedule\<close>, yet the one
  message sent is the confirmation text, which is not the reschedule text.
\<close>

theorem C3_confirm_wins_counterexample:
  "any_case_of ''reschedule'' ''reschedule'' \<and>
   map body (dispatched (snd (snd (handleInbound env_ok
     \<lparr>From = ''+15551234567'', Body = Some (''Cannot confirm, please '' @ ''reschedule'' @ '' me'')\<rparr> [])))) =
     [confirmMessage] \<and>
   confirmMessage \<noteq> rescheduleMessage"
proof -
  have w: "any_case_of ''reschedule'' ''reschedule''"
    by (simp add: any_case_of_def)
  have c: "includes_str (toUpperCase (unicode_upper env_ok)
              (''Cannot confirm, please '' @ ''reschedule'' @ '' me'')) ''CONFIRM''"
    by (simp add: is_ascii_def toUpper_char_def lower_letters_def upper_letters_def)
  have d: "confirmMessage \<noteq> rescheduleMessage"
    by (simp add: confirmMessage_def rescheduleMessage_def)
  have b: "Body \<lparr>From = ''+15551234567'', Body = Some (''Cannot confirm, please '' @ ''reschedule'' @ '' me'')\<rparr>
        = Some (''Cannot confirm, please '' @ ''reschedule'' @ '' me'')" by simp
  show ?thesis
    using w d
    by (simp only: handleInbound_dispatched handleInbound_confirm [OF b c] reply_fixed_events
        dispatched.simps sendSMS_dispatched list.map sms_request.simps simp_thms)
qed

text \<open>
  C5 as stated fails: a first message from an unknown number that is a keyword creates no
  conversation, the store is still empty after the call.
\<close>

theorem C5_keyword_creates_nothing_counterexample:
  "conversations_get [] ''+15551234567'' = None \<and>
   fst (snd (handleInbound env_ok \<lparr>From = ''+15551234567'', Body = Some ''CONFIRM''\<rparr> [])) = []"
proof -
  have c: "includes_str (toUpperCase (unicode_upper env_ok) ''CONFIRM'') ''CONFIRM''"
    by (simp add: is_ascii_def toUpper_char_def lower_letters_def upper_letters_def)
  have b: "Body \<lparr>From = ''+15551234567'', Body = Some ''CONFIRM''\<rparr> = Some ''CONFIRM''" by simp
  show ?thesis
    by (simp add: handleInbound_store handleInbound_confirm [OF b c] reply_fixed_store)
qed

text \<open>
  The keyword tests read the upper-case form of the body, not its letters: under a case
  table that sends the dotless i to \<open>I\<close>, a body spelt with that character is a
  confirmation as well. From an unknown number it is answered with the confirmation text
  and creates no conversation.
\<close>

lemma dotless_i_is_confirm:
  "fst (snd (handleInbound env_ok
     \<lparr>From = ''+15551234567'', Body = Some (''conf'' @ [CHR 0xC4, CHR 0xB1] @ ''rm'')\<rparr> [])) = [] \<and>
   map body (dispatched (snd (snd (handleInbound env_ok
     \<lparr>From = ''+15551234567'', Body = Some (''conf'' @ [CHR 0xC4, CHR 0xB1] @ ''rm'')\<rparr> [])))) =
     [confirmMessage]"
proof -
  let ?b = "''conf'' @ [CHR 0xC4, CHR 0xB1] @ ''rm''"
  have c: "includes_str (toUpperCase (unicode_upper env_ok) ?b) ''CONFIRM''"
    by (simp add: env_ok_def is_ascii_def toUpper_char_def lower_letters_def upper_letters_def)
  have b: "Body \<lparr>From = ''+15551234567'', Body = Some ?b\<rparr> = Some ?b" by simp
  show ?thesis
    by (simp only: handleInbound_store handleInbound_dispatched handleInbound_confirm [OF b c]
        reply_fixed_store reply_fixed_events dispatched.simps sendSMS_dispatched list.map
        sms_request.simps simp_thms)
qed

section \<open>Free-text branch of the webhook\<close>

lemma free_text_try:
  assumes "Body req = Some b" and "\<not> includes_str (toUpperCase (unicode_upper e) b) ''CONFIRM''"
    and "\<not> includes_str (toUpperCase (unicode_upper e) b) ''RESCHEDULE''"
  shows "handleInbound_try e req s =
     (case twilio_create e (reply_request e s (From req) b) of
        Inl err \<Rightarrow>
          (Inl err,
           conversations_set (From req)
             ((stored_or_new e s (From req))
                \<lparr>messages := messages (stored_or_new e s (From req)) @ [inbound_entry e b]\<rparr>) s,
           ConsoleLog [''Incoming SMS from '' @ From req @ '': '' @ b] #
             snd (generateAIResponse e b (reply_context e s (From req) b)) @
             snd (sendSMS e (From req) (body (reply_request e s (From req) b))))
      | Inr _ \<Rightarrow>
          (Inr twiml_ok,
           conversations_set (From req)
             ((stored_or_new e s (From req))
                \<lparr>messages := messages (stored_or_new e s (From req)) @
                   [inbound_entry e b, outbound_entry e (body (reply_request e s (From req) b))]\<rparr>) s,
           ConsoleLog [''Incoming SMS from '' @ From req @ '': '' @ b] #
             snd (generateAIResponse e b (reply_context e s (From req) b)) @
             snd (sendSMS e (From req) (body (reply_request e s (From req) b)))))"
proof (cases "conversations_get s (From req)")
  case None
  show ?thesis
    using assms None
    by (simp add: handleInbound_try_def Let_def case_prod_beta stored_or_new_def inbound_entry_def
        outbound_entry_def reply_context_def reply_request_def set_set sendSMS_outcome
        split: sum.splits)
next
  case (Some c)
  show ?thesis
    using assms Some
    by (simp add: handleInbound_try_def Let_def case_prod_beta stored_or_new_def inbound_entry_def
        outbound_entry_def reply_context_def reply_request_def set_set sendSMS_outcome
        split: sum.splits)
qed

lemma stored_or_new_messages: "messages (stored_or_new e s phone) = transcript s phone"
  by (simp add: stored_or_new_def transcript_def split: option.splits)

lemma handleInbound_response:
  "fst (handleInbound e req s) =
     (case fst (handleInbound_try e req s) of Inl err \<Rightarrow> twiml_error | Inr res \<Rightarrow> res)"
  by (simp add: handleInbound_def split: prod.splits sum.splits)

lemma handleInbound_events:
  "snd (snd (handleInbound e req s)) =
     (case fst (handleInbound_try e req s) of
        Inl err \<Rightarrow> snd (snd (handleInbound_try e req s)) @
                   [ConsoleError ''Error handling incoming SMS:'' err]
      | Inr res \<Rightarrow> snd (snd (handleInbound_try e req s)))"
  by (simp add: handleInbound_def split: prod.splits sum.splits)

lemma handleInbound_completions:
  "completions (snd (snd (handleInbound e req s))) = completions (snd (snd (handleInbound_try e req s)))"
  by (simp add: handleInbound_events completions_append split: sum.splits)

lemma free_text_store:
  assumes "Body req = Some b" and "\<not> includes_str (toUpperCase (unicode_upper e) b) ''CONFIRM''"
    and "\<not> includes_str (toUpperCase (unicode_upper e) b) ''RESCHEDULE''"
  shows "fst (snd (handleInbound e req s)) =
     conversations_set (From req)
       ((stored_or_new e s (From req))
          \<lparr>messages := transcript s (From req) @ inbound_entry e b #
             (case twilio_create e (reply_request e s (From req) b) of
                Inl err \<Rightarrow> []
              | Inr _ \<Rightarrow> [outbound_entry e (body (reply_request e s (From req) b))])\<rparr>) s"
  by (simp add: handleInbound_store free_text_try [OF assms] stored_or_new_messages split: sum.splits)

lemma free_text_dispatched:
  assumes "Body req = Some b" and "\<not> includes_str (toUpperCase (unicode_upper e) b) ''CONFIRM''"
    and "\<not> includes_str (toUpperCase (unicode_upper e) b) ''RESCHEDULE''"
  shows "dispatched (snd (snd (handleInbound e req s))) = [reply_request e s (From req) b]"
  by (simp add: handleInbound_dispatched free_text_try [OF assms] dispatched_append
      generateAIResponse_dispatched sendSMS_dispatched reply_request_def split: sum.splits)

lemma free_text_completions:
  assumes "Body req = Some b" and "\<not> includes_str (toUpperCase (unicode_upper e) b) ''CONFIRM''"
    and "\<not> includes_str (toUpperCase (unicode_upper e) b) ''RESCHEDULE''"
  shows "completions (snd (snd (handleInbound e req s))) =
           [completion_request_of b (reply_context e s (From req) b)]"
  by (simp add: handleInbound_completions free_text_try [OF assms] completions_append
      generateAIResponse_completions sendSMS_completions split: sum.splits)

lemma free_text_response:
  assumes "Body req = Some b" and "\<not> includes_str (toUpperCase (unicode_upper e) b) ''CONFIRM''"
    and "\<not> includes_str (toUpperCase (unicode_upper e) b) ''RESCHEDULE''"
  shows "fst (handleInbound e req s) =
     (case twilio_create e (reply_request e s (From req) b) of
        Inl err \<Rightarrow> twiml_error | Inr _ \<Rightarrow> twiml_ok)"
  by (simp add: handleInbound_response free_text_try [OF assms] split: sum.splits)

lemma transcript_set: "transcript (conversations_set k v s) k = messages v"
  by (simp add: transcript_def get_set)

text \<open>
  Claim C10. The path without keyword is the one taken when the upper-case form of the
  body, as the engine computes it, contains neither \<open>CONFIRM\<close> nor \<open>RESCHEDULE\<close>. On it the
  handler hands one reply to the SMS transport.
  The transcript of the sender afterwards is the transcript before, then the inbound
  message, then, only when the transport accepted the reply, the outbound message: it is
  longer by one when the dispatch failed and by two when it succeeded.
\<close>

theorem C10_transcript_growth:
  assumes "Body req = Some b" and "\<not> includes_str (toUpperCase (unicode_upper e) b) ''CONFIRM''"
    and "\<not> includes_str (toUpperCase (unicode_upper e) b) ''RESCHEDULE''"
  shows "\<exists>r. dispatched (snd (snd (handleInbound e req s))) = [r] \<and>
           transcript (fst (snd (handleInbound e req s))) (From req) =
             transcript s (From req) @
               \<lparr>direction = inbound, message = b, timestamp = new_Date e At_inbound\<rparr> #
               (case twilio_create e r of
                  Inl err \<Rightarrow> []
                | Inr receipt \<Rightarrow>
                    [\<lparr>direction = outbound, message = body r, timestamp = new_Date e At_outbound\<rparr>]) \<and>
           length (transcript (fst (snd (handleInbound e req s))) (From req)) =
             length (transcript s (From req)) +
               (case twilio_create e r of Inl err \<Rightarrow> 1 | Inr receipt \<Rightarrow> 2)"
proof -
  let ?r = "reply_request e s (From req) b"
  have d: "dispatched (snd (snd (handleInbound e req s))) = [?r]"
    by (rule free_text_dispatched [OF assms])
  have t: "transcript (fst (snd (handleInbound e req s))) (From req) =
             transcript s (From req) @
               \<lparr>direction = inbound, message = b, timestamp = new_Date e At_inbound\<rparr> #
               (case twilio_create e ?r of
                  Inl err \<Rightarrow> []
                | Inr receipt \<Rightarrow>
                    [\<lparr>direction = outbound, message = body ?r, timestamp = new_Date e At_outbound\<rparr>])"
    by (simp add: free_text_store [OF assms] transcript_set inbound_entry_def outbound_entry_def
        split: sum.splits)
  have l: "length (transcript (fst (snd (handleInbound e req s))) (From req)) =
             length (transcript s (From req)) +
               (case twilio_create e ?r of Inl err \<Rightarrow> 1 | Inr receipt \<Rightarrow> 2)"
    unfolding t by (simp split: sum.splits)
  from d t l show ?thesis by blast
qed

lemma upper_hi: "\<not> includes_str (toUpperCase tbl ''hi'') ''CONFIRM'' \<and> \<not> includes_str (toUpperCase tbl ''hi'') ''RESCHEDULE''"
  by (simp add: is_ascii_def toUpper_char_def lower_letters_def upper_letters_def)

lemma upper_hours:
  "\<not> includes_str (toUpperCase tbl ''what are your hours'') ''CONFIRM'' \<and>
   \<not> includes_str (toUpperCase tbl ''what are your hours'') ''RESCHEDULE''"
  by (simp add: is_ascii_def toUpper_char_def lower_letters_def upper_letters_def)

lemma upper_kitchen:
  "\<not> includes_str (toUpperCase tbl ''and the kitchen'') ''CONFIRM'' \<and>
   \<not> includes_str (toUpperCase tbl ''and the kitchen'') ''RESCHEDULE''"
  by (simp add: is_ascii_def toUpper_char_def lower_letters_def upper_letters_def)

text \<open>C10 with the transport down and with the transport up.\<close>

theorem C10_transcript_growth_witness:
  "transcript (fst (snd (handleInbound env_sms_down
       \<lparr>From = ''+15551234567'', Body = Some ''and the kitchen''\<rparr> [(''+15551234567'', jane)])))
     ''+15551234567'' =
     messages jane @ [\<lparr>direction = inbound, message = ''and the kitchen'', timestamp = 1001\<rparr>] \<and>
   length (transcript (fst (snd (handleInbound env_ok
       \<lparr>From = ''+15551234567'', Body = Some ''and the kitchen''\<rparr> [(''+15551234567'', jane)])))
     ''+15551234567'') = length (messages jane) + 2"
proof -
  let ?req = "\<lparr>From = ''+15551234567'', Body = Some ''and the kitchen''\<rparr>"
  let ?s = "[(''+15551234567'', jane)]"
  have b: "Body ?req = Some ''and the kitchen''" by simp
  note k = upper_kitchen [THEN conjunct1] upper_kitchen [THEN conjunct2]
  have down: "\<And>r. twilio_create env_sms_down r = Inl (ApiError ''unreachable'')"
    by (simp add: env_sms_down_def env_ok_def)
  have up: "\<And>r. twilio_create env_ok r = Inr ''SM0001''"
    by (simp add: env_ok_def)
  have t: "transcript ?s ''+15551234567'' = messages jane"
    by (simp add: transcript_def)
  have i: "new_Date env_sms_down At_inbound = 1001"
    by (simp add: env_sms_down_def env_ok_def)
  show ?thesis
    using C10_transcript_growth [OF b k, of env_sms_down ?s]
      C10_transcript_growth [OF b k, of env_ok ?s]
    by (auto simp: down up t i)
qed

section \<open>First contact and the two-message scenario\<close>

text \<open>
  Claim C5, as the code has it. A first message from a number that the store does not
  know, whose upper-case form, as the engine computes it, contains neither keyword, adds
  exactly one entry for that number, at the end of the store and leaving the others as
  they were. Its conversation is named \<open>Customer\<close>, has the context
  \<open>General inquiry\<close>, and its transcript starts with the inbound message: it was empty
  when that message was appended.
\<close>

theorem C5_first_free_text_creates:
  assumes "conversations_get s (From req) = None" and "Body req = Some b"
    and "\<not> includes_str (toUpperCase (unicode_upper e) b) ''CONFIRM''"
    and "\<not> includes_str (toUpperCase (unicode_upper e) b) ''RESCHEDULE''"
  shows "\<exists>c rest. fst (snd (handleInbound e req s)) = s @ [(From req, c)] \<and>
           length (filter (\<lambda>entry. fst entry = From req) (fst (snd (handleInbound e req s)))) = 1 \<and>
           name c = ''Customer'' \<and> context_label c = ''General inquiry'' \<and>
           started c = new_Date e At_started \<and>
           messages c =
             \<lparr>direction = inbound, message = b, timestamp = new_Date e At_inbound\<rparr> # rest \<and>
           length rest \<le> 1"
proof -
  let ?new = "\<lparr>name = ''Customer'', context_label = ''General inquiry'',
                started = new_Date e At_started, messages = []\<rparr>"
  let ?rest = "case twilio_create e (reply_request e s (From req) b) of
                 Inl err \<Rightarrow> []
               | Inr _ \<Rightarrow> [outbound_entry e (body (reply_request e s (From req) b))]"
  let ?c = "?new\<lparr>messages := inbound_entry e b # ?rest\<rparr>"
  have new: "stored_or_new e s (From req) = ?new"
    using assms(1) by (simp add: stored_or_new_def)
  have t: "transcript s (From req) = []"
    using assms(1) by (simp add: transcript_def)
  have st: "fst (snd (handleInbound e req s)) = s @ [(From req, ?c)]"
    unfolding free_text_store [OF assms(2-4)] new t
    using set_fresh [OF assms(1)] by simp
  have one: "length (filter (\<lambda>entry. fst entry = From req) (fst (snd (handleInbound e req s)))) = 1"
    unfolding st using get_None_filter [OF assms(1)] by simp
  have fields: "name ?c = ''Customer'' \<and> context_label ?c = ''General inquiry'' \<and>
      started ?c = new_Date e At_started \<and>
      messages ?c = \<lparr>direction = inbound, message = b, timestamp = new_Date e At_inbound\<rparr> # ?rest \<and>
      length ?rest \<le> 1"
    by (simp add: inbound_entry_def split: sum.splits)
  show ?thesis
    by (rule exI [of _ ?c], rule exI [of _ ?rest]) (intro conjI st one fields [THEN conjunct1]
        fields [THEN conjunct2, THEN conjunct1] fields [THEN conjunct2, THEN conjunct2, THEN conjunct1]
        fields [THEN conjunct2, THEN conjunct2, THEN conjunct2, THEN conjunct1]
        fields [THEN conjunct2, THEN conjunct2, THEN conjunct2, THEN conjunct2])
qed

text \<open>C5 at a store that knows another number only.\<close>

theorem C5_first_free_text_creates_witness:
  "conversations_get [(''+15557654321'', jane)] ''+15551234567'' = None \<and>
   map fst (fst (snd (handleInbound env_ok \<lparr>From = ''+15551234567'', Body = Some ''hi''\<rparr>
                       [(''+15557654321'', jane)]))) = [''+15557654321'', ''+15551234567''] \<and>
   map (name \<circ> snd) (fst (snd (handleInbound env_ok \<lparr>From = ''+15551234567'', Body = Some ''hi''\<rparr>
                       [(''+15557654321'', jane)]))) = [''Jane'', ''Customer'']"
proof -
  let ?req = "\<lparr>From = ''+15551234567'', Body = Some ''hi''\<rparr>"
  have g: "conversations_get [(''+15557654321'', jane)] (From ?req) = None" by simp
  have b: "Body ?req = Some ''hi''" by simp
  have j: "name jane = ''Jane''" by (simp add: jane_def)
  show ?thesis
    using C5_first_free_text_creates [OF g b upper_hi [THEN conjunct1] upper_hi [THEN conjunct2],
        of env_ok]
    by (auto simp: j)
qed

lemma status_twiml: "status twiml_ok = 200" "status twiml_error = 500"
  by (simp_all add: twiml_ok_def twiml_error_def)

lemma free_text_ok:
  assumes "Body req = Some b" and "\<not> includes_str (toUpperCase (unicode_upper e) b) ''CONFIRM''"
    and "\<not> includes_str (toUpperCase (unicode_upper e) b) ''RESCHEDULE''"
    and "status (fst (handleInbound e req s)) = 200"
  shows "\<exists>out. direction out = outbound \<and>
           fst (snd (handleInbound e req s)) =
             conversations_set (From req)
               ((stored_or_new e s (From req))
                  \<lparr>messages := transcript s (From req) @ [inbound_entry e b, out]\<rparr>) s"
proof (cases "twilio_create e (reply_request e s (From req) b)")
  case (Inl err)
  then have "status (fst (handleInbound e req s)) = 500"
    by (simp add: free_text_response [OF assms(1-3)] status_twiml)
  with assms(4) show ?thesis by simp
next
  case (Inr receipt)
  let ?out = "outbound_entry e (body (reply_request e s (From req) b))"
  have "direction ?out = outbound" by (simp add: outbound_entry_def)
  moreover have "fst (snd (handleInbound e req s)) =
             conversations_set (From req)
               ((stored_or_new e s (From req))
                  \<lparr>messages := transcript s (From req) @ [inbound_entry e b, ?out]\<rparr>) s"
    by (simp add: free_text_store [OF assms(1-3)] Inr)
  ultimately show ?thesis by blast
qed

text \<open>
  Claim C7. From a store without the number, a call with body \<open>hi\<close> and then a call with
  body \<open>what are your hours\<close>, both answered with status 200, leave exactly one entry for
  the number; its transcript has four messages, inbound, outbound, inbound, outbound. The
  two calls may see different environments, and the completion call may fail in either.
\<close>

theorem C7_two_messages_four_entries:
  assumes "conversations_get s phone = None"
    and "handleInbound e1 \<lparr>From = phone, Body = Some ''hi''\<rparr> s = (res1, s1, evs1)"
    and "status res1 = 200"
    and "handleInbound e2 \<lparr>From = phone, Body = Some ''what are your hours''\<rparr> s1 = (res2, s2, evs2)"
    and "status res2 = 200"
  shows "\<exists>c. filter (\<lambda>entry. fst entry = phone) s2 = [(phone, c)] \<and>
           map direction (messages c) = [inbound, outbound, inbound, outbound] \<and>
           map message (messages c) ! 0 = ''hi'' \<and>
           map message (messages c) ! 2 = ''what are your hours''"
proof -
  let ?r1 = "\<lparr>From = phone, Body = Some ''hi''\<rparr>"
  let ?r2 = "\<lparr>From = phone, Body = Some ''what are your hours''\<rparr>"
  have ok1: "status (fst (handleInbound e1 ?r1 s)) = 200" using assms(2,3) by simp
  have ok2: "status (fst (handleInbound e2 ?r2 s1)) = 200" using assms(4,5) by simp
  have b1: "Body ?r1 = Some ''hi''" and b2: "Body ?r2 = Some ''what are your hours''" by simp_all
  from free_text_ok [OF b1 upper_hi [THEN conjunct1] upper_hi [THEN conjunct2] ok1]
  obtain out1 where o1: "direction out1 = outbound"
    and st1: "s1 = conversations_set phone
                ((stored_or_new e1 s phone)
                   \<lparr>messages := transcript s phone @ [inbound_entry e1 ''hi'', out1]\<rparr>) s"
    using assms(2) by auto
  let ?c1 = "(stored_or_new e1 s phone)\<lparr>messages := [inbound_entry e1 ''hi'', out1]\<rparr>"
  have t0: "transcript s phone = []" using assms(1) by (simp add: transcript_def)
  have s1: "s1 = s @ [(phone, ?c1)]"
    using st1 set_fresh [OF assms(1)] by (simp add: t0)
  have g1: "conversations_get s1 phone = Some ?c1"
    unfolding st1 by (simp add: get_set t0)
  have so1: "stored_or_new e2 s1 phone = ?c1" by (simp add: stored_or_new_def g1)
  have t1: "transcript s1 phone = [inbound_entry e1 ''hi'', out1]"
    by (simp add: transcript_def g1)
  from free_text_ok [OF b2 upper_hours [THEN conjunct1] upper_hours [THEN conjunct2] ok2]
  obtain out2 where o2: "direction out2 = outbound"
    and st2: "s2 = conversations_set phone
                (?c1\<lparr>messages := transcript s1 phone @
                     [inbound_entry e2 ''what are your hours'', out2]\<rparr>) s1"
    using assms(4) by (auto simp: so1)
  let ?c2 = "?c1\<lparr>messages := [inbound_entry e1 ''hi'', out1,
                               inbound_entry e2 ''what are your hours'', out2]\<rparr>"
  have "s2 = conversations_set phone ?c2 s1"
    unfolding st2 t1 by simp
  also have "\<dots> = conversations_set phone ?c2 s"
    unfolding st1 by (rule set_set)
  finally have s2: "s2 = s @ [(phone, ?c2)]" using set_fresh [OF assms(1)] by simp
  have f: "filter (\<lambda>entry. fst entry = phone) s2 = [(phone, ?c2)]"
    unfolding s2 using get_None_filter [OF assms(1)] by simp
  have d: "map direction (messages ?c2) = [inbound, outbound, inbound, outbound]"
    using o1 o2 by (simp add: inbound_entry_def)
  have m: "map message (messages ?c2) ! 0 = ''hi'' \<and>
           map message (messages ?c2) ! 2 = ''what are your hours''"
    by (simp add: inbound_entry_def)
  show ?thesis
  proof (intro exI conjI)
    show "filter (\<lambda>entry. fst entry = phone) s2 = [(phone, ?c2)]" by (rule f)
    show "map direction (messages ?c2) = [inbound, outbound, inbound, outbound]" by (rule d)
    show "map message (messages ?c2) ! 0 = ''hi''" by (rule m [THEN conjunct1])
    show "map message (messages ?c2) ! 2 = ''what are your hours''" by (rule m [THEN conjunct2])
  qed
qed

lemma filter_get:
  "filter (\<lambda>entry. fst entry = k) s = (k, c) # rest \<Longrightarrow> conversations_get s k = Some c"
  by (induction s) (auto split: if_splits)

text \<open>C7 from the empty store, with the transport up.\<close>

theorem C7_two_messages_four_entries_witness:
  "conversations_get [] ''+15551234567'' = None \<and>
   status (fst (handleInbound env_ok \<lparr>From = ''+15551234567'', Body = Some ''hi''\<rparr> [])) = 200 \<and>
   status (fst (handleInbound env_ok \<lparr>From = ''+15551234567'', Body = Some ''what are your hours''\<rparr>
     (fst (snd (handleInbound env_ok \<lparr>From = ''+15551234567'', Body = Some ''hi''\<rparr> []))))) = 200 \<and>
   map direction (transcript
     (fst (snd (handleInbound env_ok \<lparr>From = ''+15551234567'', Body = Some ''what are your hours''\<rparr>
       (fst (snd (handleInbound env_ok \<lparr>From = ''+15551234567'', Body = Some ''hi''\<rparr> []))))))
     ''+15551234567'') = [inbound, outbound, inbound, outbound]"
proof -
  let ?p = "''+15551234567''"
  let ?r1 = "\<lparr>From = ?p, Body = Some ''hi''\<rparr>"
  let ?r2 = "\<lparr>From = ?p, Body = Some ''what are your hours''\<rparr>"
  let ?H1 = "handleInbound env_ok ?r1 []"
  let ?H2 = "handleInbound env_ok ?r2 (fst (snd ?H1))"
  have up: "\<And>r. twilio_create env_ok r = Inr ''SM0001''"
    by (simp add: env_ok_def)
  have b1: "Body ?r1 = Some ''hi''" and b2: "Body ?r2 = Some ''what are your hours''" by simp_all
  have ok1: "status (fst ?H1) = 200"
    by (simp add: free_text_response [OF b1 upper_hi [THEN conjunct1] upper_hi [THEN conjunct2]]
        up status_twiml)
  have ok2: "status (fst ?H2) = 200"
    by (simp add: free_text_response [OF b2 upper_hours [THEN conjunct1] upper_hours [THEN conjunct2]]
        up status_twiml)
  have g: "conversations_get [] ?p = None" by simp
  have h1: "?H1 = (fst ?H1, fst (snd ?H1), snd (snd ?H1))" by simp
  have h2: "?H2 = (fst ?H2, fst (snd ?H2), snd (snd ?H2))" by simp
  from C7_two_messages_four_entries [OF g h1 ok1 h2 ok2]
  obtain c where fd: "filter (\<lambda>entry. fst entry = ?p) (fst (snd ?H2)) = [(?p, c)] \<and>
      map direction (messages c) = [inbound, outbound, inbound, outbound] \<and>
      map message (messages c) ! 0 = ''hi'' \<and>
      map message (messages c) ! 2 = ''what are your hours''" ..
  note f = fd [THEN conjunct1] and d = fd [THEN conjunct2, THEN conjunct1]
  have "transcript (fst (snd ?H2)) ?p = messages c"
    by (simp add: transcript_def filter_get [OF f])
  with g ok1 ok2 d show ?thesis by simp
qed

section \<open>Exceptions in the webhook\<close>

lemma handleInbound_raise:
  assumes "fst (handleInbound_try e req s) = Inl err"
  shows "fst (handleInbound e req s) = twiml_error \<and>
         snd (snd (handleInbound e req s)) \<noteq> [] \<and>
         last (snd (snd (handleInbound e req s))) = ConsoleError ''Error handling incoming SMS:'' err"
  using assms by (simp add: handleInbound_response handleInbound_events)

lemma reply_fixed_raise:
  assumes "twilio_create e \<lparr>body = m, from_number = TWILIO_PHONE_NUMBER e, to_number = p\<rparr> = Inl err"
  shows "fst (reply_fixed e p m s l) = Inl err"
  using assms by (simp add: reply_fixed_outcome sendSMS_outcome)

lemma handleInbound_try_raise:
  assumes "Body req = None \<or>
           (\<exists>r. r \<in> set (dispatched (snd (snd (handleInbound e req s)))) \<and> twilio_create e r = Inl err)"
  shows "fst (handleInbound_try e req s) =
           Inl (case Body req of
                  None \<Rightarrow> TypeError ''Cannot read properties of undefined''
                | Some b \<Rightarrow> err)"
proof (cases "Body req")
  case None
  then show ?thesis by (simp add: handleInbound_try_def)
next
  case (Some b)
  then obtain r where r: "r \<in> set (dispatched (snd (snd (handleInbound e req s))))"
    and fail: "twilio_create e r = Inl err" using assms by auto
  show ?thesis
  proof (cases "includes_str (toUpperCase (unicode_upper e) b) ''CONFIRM''")
    case True
    note t = handleInbound_confirm [OF Some True, of s]
    have "r = \<lparr>body = confirmMessage, from_number = TWILIO_PHONE_NUMBER e, to_number = From req\<rparr>"
      using r by (simp add: handleInbound_dispatched t reply_fixed_events sendSMS_dispatched)
    then show ?thesis using fail Some by (simp add: t reply_fixed_raise)
  next
    case False
    show ?thesis
    proof (cases "includes_str (toUpperCase (unicode_upper e) b) ''RESCHEDULE''")
      case True
      note t = handleInbound_reschedule [OF Some False True, of s]
      have "r = \<lparr>body = rescheduleMessage, from_number = TWILIO_PHONE_NUMBER e, to_number = From req\<rparr>"
        using r by (simp add: handleInbound_dispatched t reply_fixed_events sendSMS_dispatched)
      then show ?thesis using fail Some by (simp add: t reply_fixed_raise)
    next
      case nr: False
      have "r = reply_request e s (From req) b"
        using r by (simp add: free_text_dispatched [OF Some False nr])
      then show ?thesis using fail Some by (simp add: free_text_try [OF Some False nr])
    qed
  qed
qed

text \<open>
  Claim C2, as the code has it. An exception reaches the handler's \<open>catch\<close> when the
  request has no body, which raises a type error, or when the SMS transport rejects the
  message the handler sends, which raises the transport's error; a failed completion call
  never does, the composer absorbs it. In both cases the handler logs that very exception
  as its last action and answers with the empty acknowledgment \<open><Response></Response>\<close>
  under status 500.
\<close>

theorem C2_webhook_exception_status:
  assumes "handleInbound e req s = (res, s', evs)"
    and "Body req = None \<or> (\<exists>r. r \<in> set (dispatched evs) \<and> twilio_create e r = Inl err)"
  shows "res = \<lparr>status = 500, content_type = None, payload = SendText ''<Response></Response>''\<rparr> \<and>
         (\<exists>raised. fst (handleInbound_try e req s) = Inl raised \<and>
            (case Body req of None \<Rightarrow> \<exists>msg. raised = TypeError msg | Some b \<Rightarrow> raised = err) \<and>
            evs \<noteq> [] \<and>
            last evs = ConsoleError ''Error handling incoming SMS:'' raised)"
proof -
  have evs: "evs = snd (snd (handleInbound e req s))" and res: "res = fst (handleInbound e req s)"
    using assms(1) by simp_all
  have raised: "fst (handleInbound_try e req s) =
           Inl (case Body req of
                  None \<Rightarrow> TypeError ''Cannot read properties of undefined''
                | Some b \<Rightarrow> err)"
    using assms(2) unfolding evs by (rule handleInbound_try_raise)
  note caught = handleInbound_raise [OF raised]
  have kind: "case Body req of
      None \<Rightarrow> \<exists>msg. (case Body req of
                           None \<Rightarrow> TypeError ''Cannot read properties of undefined''
                         | Some b \<Rightarrow> err) = TypeError msg
    | Some b \<Rightarrow> (case Body req of
                    None \<Rightarrow> TypeError ''Cannot read properties of undefined''
                  | Some b \<Rightarrow> err) = err"
    by (simp split: option.splits)
  have "res = \<lparr>status = 500, content_type = None, payload = SendText ''<Response></Response>''\<rparr>"
    unfolding res by (simp add: caught twiml_error_def)
  moreover have "\<exists>raised. fst (handleInbound_try e req s) = Inl raised \<and>
            (case Body req of None \<Rightarrow> \<exists>msg. raised = TypeError msg | Some b \<Rightarrow> raised = err) \<and>
            evs \<noteq> [] \<and>
            last evs = ConsoleError ''Error handling incoming SMS:'' raised"
    unfolding evs
    by (intro exI conjI, rule raised, rule kind, rule caught [THEN conjunct2, THEN conjunct1],
        rule caught [THEN conjunct2, THEN conjunct2])
  ultimately show ?thesis ..
qed

text \<open>C2 at a rejected dispatch (the completion call failing as well) and at a missing body.\<close>

theorem C2_webhook_exception_status_witness:
  "twilio_create env_sms_down
     \<lparr>body = fallbackMessage, from_number = ''+15550001111'', to_number = ''+15551234567''\<rparr> =
     Inl (ApiError ''unreachable'') \<and>
   fst (handleInbound (env_sms_down\<lparr>openai_create := (\<lambda>_. Inr [])\<rparr>)
          \<lparr>From = ''+15551234567'', Body = Some ''hi''\<rparr> []) =
     \<lparr>status = 500, content_type = None, payload = SendText ''<Response></Response>''\<rparr> \<and>
   last (snd (snd (handleInbound (env_sms_down\<lparr>openai_create := (\<lambda>_. Inr [])\<rparr>)
          \<lparr>From = ''+15551234567'', Body = Some ''hi''\<rparr> []))) =
     ConsoleError ''Error handling incoming SMS:'' (ApiError ''unreachable'') \<and>
   fst (handleInbound env_ok \<lparr>From = ''+15551234567'', Body = None\<rparr> []) =
     \<lparr>status = 500, content_type = None, payload = SendText ''<Response></Response>''\<rparr> \<and>
   last (snd (snd (handleInbound env_ok \<lparr>From = ''+15551234567'', Body = None\<rparr> []))) =
     ConsoleError ''Error handling incoming SMS:'' (TypeError ''Cannot read properties of undefined'')"
proof -
  let ?e = "env_sms_down\<lparr>openai_create := (\<lambda>_. Inr [])\<rparr>"
  let ?r1 = "\<lparr>From = ''+15551234567'', Body = Some ''hi''\<rparr>"
  let ?r2 = "\<lparr>From = ''+15551234567'', Body = None\<rparr>"
  let ?H1 = "handleInbound ?e ?r1 []"
  let ?H2 = "handleInbound env_ok ?r2 []"
  have down: "\<And>r. twilio_create ?e r = Inl (ApiError ''unreachable'')"
    by (simp add: env_sms_down_def env_ok_def)
  have down': "twilio_create env_sms_down
     \<lparr>body = fallbackMessage, from_number = ''+15550001111'', to_number = ''+15551234567''\<rparr> =
     Inl (ApiError ''unreachable'')"
    by (simp add: env_sms_down_def env_ok_def)
  have b1: "Body ?r1 = Some ''hi''" by simp
  have d: "dispatched (snd (snd ?H1)) = [reply_request ?e [] (From ?r1) ''hi'']"
    by (rule free_text_dispatched [OF b1 upper_hi [THEN conjunct1] upper_hi [THEN conjunct2]])
  have hyp1: "Body ?r1 = None \<or>
     (\<exists>r. r \<in> set (dispatched (snd (snd ?H1))) \<and> twilio_create ?e r = Inl (ApiError ''unreachable''))"
    unfolding d using down by simp
  have hyp2: "Body ?r2 = None \<or>
     (\<exists>r. r \<in> set (dispatched (snd (snd ?H2))) \<and> twilio_create env_ok r = Inl (ApiError ''unreachable''))"
    by simp
  have h1: "?H1 = (fst ?H1, fst (snd ?H1), snd (snd ?H1))" by simp
  have h2: "?H2 = (fst ?H2, fst (snd ?H2), snd (snd ?H2))" by simp
  note r1 = C2_webhook_exception_status [OF h1 hyp1, THEN conjunct1]
  note r2 = C2_webhook_exception_status [OF h2 hyp2, THEN conjunct1]
  have l1: "last (snd (snd ?H1)) =
      ConsoleError ''Error handling incoming SMS:'' (ApiError ''unreachable'')"
    using C2_webhook_exception_status [OF h1 hyp1] by auto
  have t2: "fst (handleInbound_try env_ok ?r2 []) = Inl (TypeError ''Cannot read properties of undefined'')"
    by (simp add: handleInbound_try_def)
  have l2: "last (snd (snd ?H2)) =
      ConsoleError ''Error handling incoming SMS:'' (TypeError ''Cannot read properties of undefined'')"
    using C2_webhook_exception_status [OF h2 hyp2] t2 by auto
  show ?thesis by (intro conjI) (rule down' r1 r2 l1 l2)+
qed

text \<open>
  C2 as stated fails: the transport rejects the confirmation text, the exception is raised,
  and the status of the answer is the error status 500.
\<close>

theorem C2_status_500_counterexample:
  "fst (handleInbound_try env_sms_down \<lparr>From = ''+15551234567'', Body = Some ''CONFIRM''\<rparr> []) =
     Inl (ApiError ''unreachable'') \<and>
   status (fst (handleInbound env_sms_down \<lparr>From = ''+15551234567'', Body = Some ''CONFIRM''\<rparr> [])) = 500"
proof -
  let ?req = "\<lparr>From = ''+15551234567'', Body = Some ''CONFIRM''\<rparr>"
  have c: "includes_str (toUpperCase (unicode_upper env_sms_down) ''CONFIRM'') ''CONFIRM''"
    by (simp add: is_ascii_def toUpper_char_def lower_letters_def upper_letters_def)
  have b: "Body ?req = Some ''CONFIRM''" by simp
  have down: "\<And>r. twilio_create env_sms_down r = Inl (ApiError ''unreachable'')"
    by (simp add: env_sms_down_def env_ok_def)
  have t: "fst (handleInbound_try env_sms_down ?req []) = Inl (ApiError ''unreachable'')"
    by (simp add: handleInbound_confirm [OF b c] reply_fixed_raise down)
  from t handleInbound_raise [OF t] show ?thesis by (simp add: status_twiml)
qed

section \<open>What reaches the completion client\<close>

lemma history_ignored:
  "generateAIResponse e m (ctx\<lparr>conversationHistory := h\<rparr>) = generateAIResponse e m ctx"
  by (simp add: generateAIResponse_def generateAIResponse_try_def completion_request_of_def
      systemPrompt_def)

lemma contextString_at_most_three:
  "contextString msgs =
     join newline (map (\<lambda>m. direction_text (direction m) @ '': '' @ message m)
       (drop (length msgs - 3) msgs)) \<and>
   length (drop (length msgs - 3) msgs) \<le> 3"
  by (simp add: contextString_def slice_last_def)

text \<open>
  Claim C4 at a conversation of three messages and the inbound body \<open>and the kitchen\<close>.
  The handler builds the history of the last three entries, the new one included, each
  with its direction, one per line, and passes it to the composer. The request that the
  composer hands to the completion client holds the system prompt with the context label
  and the customer's message, and nothing of the history.
\<close>

theorem C4_history_not_in_request:
  "conversationHistory (reply_context env_ok [(''+15551234567'', jane)] ''+15551234567'' ''and the kitchen'') =
     Some (''inbound: I need a quote'' @ newline @ ''outbound: Sure, which room?'' @ newline @
           ''inbound: and the kitchen'') \<and>
   completions (snd (snd (handleInbound env_ok
       \<lparr>From = ''+15551234567'', Body = Some ''and the kitchen''\<rparr> [(''+15551234567'', jane)]))) =
     [\<lparr>model = ''gpt-3.5-turbo'',
       prompt_messages =
         [\<lparr>role = ''system'',
           content = systemPrompt \<lparr>businessContext = Some ''blind install quote'',
                                   conversationHistory = None\<rparr>\<rparr>,
          \<lparr>role = ''user'', content = ''and the kitchen''\<rparr>],
       max_tokens = 50, temperature = 7 / 10\<rparr>]"
proof -
  let ?req = "\<lparr>From = ''+15551234567'', Body = Some ''and the kitchen''\<rparr>"
  have b: "Body ?req = Some ''and the kitchen''" by simp
  have so: "stored_or_new env_ok [(''+15551234567'', jane)] ''+15551234567'' = jane"
    by (simp add: stored_or_new_def)
  have h: "conversationHistory (reply_context env_ok [(''+15551234567'', jane)] ''+15551234567'' ''and the kitchen'') =
     Some (''inbound: I need a quote'' @ newline @ ''outbound: Sure, which room?'' @ newline @
           ''inbound: and the kitchen'')"
  proof -
    have msgs: "messages jane @ [inbound_entry env_ok ''and the kitchen''] =
        [\<lparr>direction = outbound, message = ''Hi Jane, how can we help?'', timestamp = 501\<rparr>,
         \<lparr>direction = inbound, message = ''I need a quote'', timestamp = 502\<rparr>,
         \<lparr>direction = outbound, message = ''Sure, which room?'', timestamp = 503\<rparr>,
         \<lparr>direction = inbound, message = ''and the kitchen'', timestamp = 1001\<rparr>]"
      by (simp add: jane_def inbound_entry_def env_ok_def)
    show ?thesis
      unfolding reply_context_def so msgs
      by (simp add: contextString_def slice_last_def)
  qed
  have cl: "context_label jane = ''blind install quote''" by (simp add: jane_def)
  have c: "completions (snd (snd (handleInbound env_ok ?req [(''+15551234567'', jane)]))) =
      [completion_request_of ''and the kitchen''
         (reply_context env_ok [(''+15551234567'', jane)] (From ?req) ''and the kitchen'')]"
    by (rule free_text_completions [OF b upper_kitchen [THEN conjunct1] upper_kitchen [THEN conjunct2]])
  have r: "completion_request_of ''and the kitchen''
         (reply_context env_ok [(''+15551234567'', jane)] (From ?req) ''and the kitchen'') =
     \<lparr>model = ''gpt-3.5-turbo'',
       prompt_messages =
         [\<lparr>role = ''system'',
           content = systemPrompt \<lparr>businessContext = Some ''blind install quote'',
                                   conversationHistory = None\<rparr>\<rparr>,
          \<lparr>role = ''user'', content = ''and the kitchen''\<rparr>],
       max_tokens = 50, temperature = 7 / 10\<rparr>"
    by (simp add: completion_request_of_def reply_context_def so systemPrompt_def cl)
  show ?thesis unfolding c r using h by simp
qed

section \<open>Initiate contact\<close>

lemma initiateContact_try_store:
  "fst (snd (initiateContact_try e req s)) =
     conversations_set (customer_phone req)
       \<lparr>name = customer_name req, context_label = trigger_context req,
        started = new_Date e At_started,
        messages = (case twilio_create e (greeting_request e req) of
                      Inl err \<Rightarrow> []
                    | Inr _ \<Rightarrow> [outbound_entry e (body (greeting_request e req))])\<rparr> s"
  by (simp add: initiateContact_try_def Let_def case_prod_beta get_set set_set sendSMS_outcome
      greeting_request_def outbound_entry_def split: sum.splits)

lemma initiateContact_try_outcome:
  "fst (initiateContact_try e req s) =
     (case twilio_create e (greeting_request e req) of
        Inl err \<Rightarrow> Inl err
      | Inr _ \<Rightarrow> Inr \<lparr>status = 200, content_type = None,
                      payload = JsonSuccess True ''Contact initiated'' (body (greeting_request e req))\<rparr>)"
  by (simp add: initiateContact_try_def Let_def case_prod_beta get_set sendSMS_outcome
      greeting_request_def split: sum.splits)

lemma initiateContact_try_dispatched:
  "dispatched (snd (snd (initiateContact_try e req s))) = [greeting_request e req]"
  by (simp add: initiateContact_try_def Let_def case_prod_beta get_set dispatched_append
      generateAIResponse_dispatched sendSMS_dispatched greeting_request_def split: sum.splits)

lemma initiateContact_store:
  "fst (snd (initiateContact e req s)) = fst (snd (initiateContact_try e req s))"
  by (simp add: initiateContact_def split: prod.splits sum.splits)

lemma initiateContact_dispatched:
  "dispatched (snd (snd (initiateContact e req s))) = dispatched (snd (snd (initiateContact_try e req s)))"
  by (simp add: initiateContact_def dispatched_append split: prod.splits sum.splits)

lemma initiateContact_response:
  "fst (initiateContact e req s) =
     (case fst (initiateContact_try e req s) of
        Inl err \<Rightarrow> \<lparr>status = 500, content_type = None,
                      payload = JsonError ''Failed to initiate contact''\<rparr>
      | Inr res \<Rightarrow> res)"
  by (simp add: initiateContact_def split: prod.splits sum.splits)

text \<open>
  Claim C9. When the initiate-contact route answers 500, or the SMS transport rejects the
  greeting, the answer is the generic error and the store holds for the number the new
  conversation of the request with an empty transcript, whatever it held before.
\<close>

theorem C9_initiate_failure_keeps_new_entry:
  assumes "initiateContact e req s = (res, s', evs)"
    and "status res = 500 \<or> (\<exists>r. r \<in> set (dispatched evs) \<and> twilio_create e r = Inl err)"
  shows "res = \<lparr>status = 500, content_type = None,
                payload = JsonError ''Failed to initiate contact''\<rparr> \<and>
         conversations_get s' (customer_phone req) =
           Some \<lparr>name = customer_name req, context_label = trigger_context req,
                 started = new_Date e At_started, messages = []\<rparr>"
proof -
  have res: "res = fst (initiateContact e req s)" and s': "s' = fst (snd (initiateContact e req s))"
    and evs: "evs = snd (snd (initiateContact e req s))" using assms(1) by simp_all
  have "\<exists>err'. twilio_create e (greeting_request e req) = Inl err'"
  proof (cases "twilio_create e (greeting_request e req)")
    case (Inl err')
    then show ?thesis by simp
  next
    case (Inr receipt)
    then have "status res = 200"
      by (simp add: res initiateContact_response initiateContact_try_outcome)
    moreover have "dispatched evs = [greeting_request e req]"
      by (simp add: evs initiateContact_dispatched initiateContact_try_dispatched)
    ultimately show ?thesis using assms(2) Inr by auto
  qed
  then obtain err' where fail: "twilio_create e (greeting_request e req) = Inl err'" ..
  have a: "res = \<lparr>status = 500, content_type = None,
                  payload = JsonError ''Failed to initiate contact''\<rparr>"
    by (simp add: res initiateContact_response initiateContact_try_outcome fail)
  have b: "conversations_get s' (customer_phone req) =
           Some \<lparr>name = customer_name req, context_label = trigger_context req,
                 started = new_Date e At_started, messages = []\<rparr>"
    by (simp add: s' initiateContact_store initiateContact_try_store fail get_set)
  from a b show ?thesis ..
qed

text \<open>C9 at a number whose earlier conversation had three messages.\<close>

theorem C9_initiate_failure_keeps_new_entry_witness:
  "transcript [(''+15551234567'', jane)] ''+15551234567'' = messages jane \<and>
   status (fst (initiateContact env_sms_down
     \<lparr>customer_phone = ''+15551234567'', customer_name = ''Jane'', trigger_context = ''new quote''\<rparr>
     [(''+15551234567'', jane)])) = 500 \<and>
   conversations_get (fst (snd (initiateContact env_sms_down
     \<lparr>customer_phone = ''+15551234567'', customer_name = ''Jane'', trigger_context = ''new quote''\<rparr>
     [(''+15551234567'', jane)]))) ''+15551234567'' =
     Some \<lparr>name = ''Jane'', context_label = ''new quote'', started = 1000, messages = []\<rparr>"
proof -
  let ?req = "\<lparr>customer_phone = ''+15551234567'', customer_name = ''Jane'', trigger_context = ''new quote''\<rparr>"
  let ?s = "[(''+15551234567'', jane)]"
  let ?I = "initiateContact env_sms_down ?req ?s"
  have down: "\<And>r. twilio_create env_sms_down r = Inl (ApiError ''unreachable'')"
    by (simp add: env_sms_down_def env_ok_def)
  have d: "dispatched (snd (snd ?I)) = [greeting_request env_sms_down ?req]"
    by (simp add: initiateContact_dispatched initiateContact_try_dispatched)
  have hyp: "status (fst ?I) = 500 \<or>
     (\<exists>r. r \<in> set (dispatched (snd (snd ?I))) \<and> twilio_create env_sms_down r = Inl (ApiError ''unreachable''))"
    unfolding d using down by simp
  have i: "?I = (fst ?I, fst (snd ?I), snd (snd ?I))" by simp
  have t: "transcript ?s ''+15551234567'' = messages jane" by (simp add: transcript_def)
  have n: "new_Date env_sms_down At_started = 1000" by (simp add: env_sms_down_def env_ok_def)
  note r = C9_initiate_failure_keeps_new_entry [OF i hyp]
  have a: "status (fst ?I) = 500" using r [THEN conjunct1] by simp
  have b: "conversations_get (fst (snd ?I)) ''+15551234567'' =
     Some \<lparr>name = ''Jane'', context_label = ''new quote'', started = 1000, messages = []\<rparr>"
    using r [THEN conjunct2] by (simp add: n)
  show ?thesis by (intro conjI) (rule t a b)+
qed

section \<open>Listing\<close>

lemma listing_loop_distinct:
  "distinct (map fst s) \<Longrightarrow>
     listing_loop s acc phone =
       (if phone = ''__proto__'' then acc phone
        else case conversations_get s phone of None \<Rightarrow> acc phone | Some c \<Rightarrow> Some (summarize c))"
proof (induction s arbitrary: acc)
  case Nil
  then show ?case by simp
next
  case (Cons entry rest)
  obtain k c where entry: "entry = (k, c)" by (cases entry)
  have d: "distinct (map fst rest)" and k: "k \<notin> set (map fst rest)"
    using Cons.prems by (simp_all add: entry)
  show ?case
  proof (cases "k = phone")
    case True
    have "conversations_get rest phone = None"
      using k unfolding True by (induction rest) auto
    then show ?thesis using True by (simp add: entry Cons.IH [OF d] assign_property_def)
  next
    case False
    then show ?thesis by (auto simp: entry Cons.IH [OF d] assign_property_def split: option.splits)
  qed
qed

lemma summarize_last:
  "summarize c =
     \<lparr>summary_name = name c, summary_context = context_label c, summary_started = started c,
      messageCount = length (messages c),
      lastMessage = (if messages c = [] then None else Some (last (messages c)))\<rparr>"
  by (simp add: summarize_def last_conv_nth)

lemma summarize_cong:
  assumes "name c' = name c" and "context_label c' = context_label c" and "started c' = started c"
    and "length (messages c') = length (messages c)" and "last (messages c') = last (messages c)"
  shows "summarize c' = summarize c"
  using assms by (auto simp: summarize_last)

text \<open>
  The store has one entry per number from the start, and both routes that write to it
  keep it so.
\<close>

lemma handleInbound_distinct:
  assumes "distinct (map fst s)"
  shows "distinct (map fst (fst (snd (handleInbound e req s))))"
proof (cases "Body req")
  case None
  then show ?thesis using assms by (simp add: handleInbound_store handleInbound_try_def)
next
  case (Some b)
  show ?thesis
  proof (cases "includes_str (toUpperCase (unicode_upper e) b) ''CONFIRM''")
    case True
    show ?thesis
      using assms by (simp add: handleInbound_store handleInbound_confirm [OF Some True] reply_fixed_store)
  next
    case False
    show ?thesis
    proof (cases "includes_str (toUpperCase (unicode_upper e) b) ''RESCHEDULE''")
      case True
      show ?thesis
        using assms
        by (simp add: handleInbound_store handleInbound_reschedule [OF Some False True] reply_fixed_store)
    next
      case nr: False
      show ?thesis
        unfolding free_text_store [OF Some False nr] using assms by (rule distinct_set)
    qed
  qed
qed

lemma initiateContact_distinct:
  assumes "distinct (map fst s)"
  shows "distinct (map fst (fst (snd (initiateContact e req s))))"
  unfolding initiateContact_store initiateContact_try_store using assms by (rule distinct_set)

text \<open>
  Claim C8. For a store with one entry per number, what the listing holds for a number is
  nothing at all, when the number is unknown or is the key \<open>__proto__\<close>, and otherwise the
  name, context, start time, message count and last message (absent for an empty
  transcript) of its conversation. It shows no more of a transcript than that: replacing
  a conversation by one with the same five values gives the same listing.
\<close>

theorem C8_listing_is_summary:
  assumes "distinct (map fst s)"
  shows "payload (listConversations s) =
           JsonListing (\<lambda>phone.
              if phone = ''__proto__'' then None
              else case conversations_get s phone of
                None \<Rightarrow> None
              | Some c \<Rightarrow>
                  Some \<lparr>summary_name = name c, summary_context = context_label c,
                        summary_started = started c, messageCount = length (messages c),
                        lastMessage = (if messages c = [] then None else Some (last (messages c)))\<rparr>) \<and>
         (\<forall>phone c c'. conversations_get s phone = Some c \<and> name c' = name c \<and>
              context_label c' = context_label c \<and> started c' = started c \<and>
              length (messages c') = length (messages c) \<and>
              last (messages c') = last (messages c) \<longrightarrow>
            listConversations (conversations_set phone c' s) = listConversations s)"
proof (intro conjI allI impI)
  show "payload (listConversations s) =
           JsonListing (\<lambda>phone.
              if phone = ''__proto__'' then None
              else case conversations_get s phone of
                None \<Rightarrow> None
              | Some c \<Rightarrow>
                  Some \<lparr>summary_name = name c, summary_context = context_label c,
                        summary_started = started c, messageCount = length (messages c),
                        lastMessage = (if messages c = [] then None else Some (last (messages c)))\<rparr>)"
    by (simp add: listConversations_def listing_loop_distinct [OF assms] summarize_last fun_eq_iff
        split: option.splits)
next
  fix phone and c c' :: conversation
  assume h: "conversations_get s phone = Some c \<and> name c' = name c \<and>
              context_label c' = context_label c \<and> started c' = started c \<and>
              length (messages c') = length (messages c) \<and>
              last (messages c') = last (messages c)"
  then have eq: "summarize c' = summarize c" by (intro summarize_cong) simp_all
  have d': "distinct (map fst (conversations_set phone c' s))" using assms by (rule distinct_set)
  have "listing_loop (conversations_set phone c' s) Map.empty = listing_loop s Map.empty"
  proof
    fix p
    show "listing_loop (conversations_set phone c' s) Map.empty p = listing_loop s Map.empty p"
      using h by (simp add: listing_loop_distinct [OF d'] listing_loop_distinct [OF assms] get_set eq)
  qed
  then show "listConversations (conversations_set phone c' s) = listConversations s"
    by (simp add: listConversations_def)
qed

text \<open>
  C8 at a transcript of three messages, an empty transcript, an unknown number and the key
  \<open>__proto__\<close>.
\<close>

theorem C8_listing_is_summary_witness:
  "distinct (map fst [(''+15551234567'', jane), (''+15557654321'', jane\<lparr>messages := []\<rparr>),
                      (''__proto__'', jane)]) \<and>
   (case payload (listConversations [(''+15551234567'', jane), (''+15557654321'', jane\<lparr>messages := []\<rparr>),
                                     (''__proto__'', jane)]) of
      JsonListing m \<Rightarrow> [m ''+15551234567'', m ''+15557654321'', m ''+10000000000'', m ''__proto__'']
    | _ \<Rightarrow> []) =
     [Some \<lparr>summary_name = ''Jane'', summary_context = ''blind install quote'', summary_started = 500,
            messageCount = 3,
            lastMessage = Some \<lparr>direction = outbound, message = ''Sure, which room?'', timestamp = 503\<rparr>\<rparr>,
      Some \<lparr>summary_name = ''Jane'', summary_context = ''blind install quote'', summary_started = 500,
            messageCount = 0, lastMessage = None\<rparr>,
      None, None]"
proof -
  let ?s = "[(''+15551234567'', jane), (''+15557654321'', jane\<lparr>messages := []\<rparr>),
             (''__proto__'', jane)]"
  have d: "distinct (map fst ?s)" by simp
  show ?thesis
    using d C8_listing_is_summary [OF d, THEN conjunct1]
    by (simp add: jane_def)
qed

end
